theory Spec2Isabelle
  imports Complex_Main "HOL-Library.AList" "HOL-Library.Sublist"
begin

section \<open>Python values, exceptions and sequencing\<close>

text \<open>
  Every \<^verbatim>\<open>raise\<close> of the source, and every exception of the Python run time that
  the modelled code can meet, is a value of \<open>error\<close>. A computation that may raise
  returns \<open>error + 'a\<close>, with \<open>Inl\<close> for the exception.
\<close>

datatype error =
  ValueError string
  | TypeError string
  | AttributeError
  | ZeroDivisionError
  | StopIteration
  | FileNotFoundError
  | FileExistsError
  | NotADirectoryError
  | IsADirectoryError
  | JSONDecodeError

definition err_bind :: "error + 'a \<Rightarrow> ('a \<Rightarrow> error + 'b) \<Rightarrow> error + 'b" where
  "err_bind m f = (case m of Inl e \<Rightarrow> Inl e | Inr x \<Rightarrow> f x)"

text \<open>A list comprehension whose element expression may raise: the first exception wins.\<close>

fun map_err :: "('a \<Rightarrow> error + 'b) \<Rightarrow> 'a list \<Rightarrow> error + 'b list" where
  "map_err f [] = Inr []"
| "map_err f (x # xs) =
     err_bind (f x) (\<lambda>y. err_bind (map_err f xs) (\<lambda>ys. Inr (y # ys)))"

text \<open>
  Numbers that Python holds as \<^verbatim>\<open>int | float\<close> are rationals here: the rounding of
  floating-point arithmetic is not modelled, the exceptions of the operators are.
  True division raises on a zero divisor.
\<close>

definition py_truediv :: "rat \<Rightarrow> rat \<Rightarrow> error + rat" where
  "py_truediv a b = (if b = 0 then Inl ZeroDivisionError else Inr (a / b))"

text \<open>\<^verbatim>\<open>int(x)\<close> truncates towards zero.\<close>

definition py_int :: "rat \<Rightarrow> int" where
  "py_int x = (if 0 \<le> x then \<lfloor>x\<rfloor> else \<lceil>x\<rceil>)"

section \<open>The run loader: \<^verbatim>\<open>models/benchmark_run.py\<close>\<close>

datatype json =
  JNull
  | JBool bool
  | JNum rat
  | JStr string
  | JArr "json list"
  | JObj "(string \<times> json) list"

type_synonym path = "string list"

text \<open>
  The loader sees the text files of the file system: a map from a path to the text of the
  file there. \<^verbatim>\<open>Path.read_text\<close> raises when there is no file; \<^verbatim>\<open>json.loads\<close> is the
  library's parser, a parameter \<open>loads\<close> that answers \<open>None\<close> where the library raises.
\<close>

type_synonym text_files = "path \<rightharpoonup> string"

definition read_text :: "text_files \<Rightarrow> path \<Rightarrow> error + string" where
  "read_text fs p = (case fs p of None \<Rightarrow> Inl FileNotFoundError | Some s \<Rightarrow> Inr s)"

definition path_exists :: "text_files \<Rightarrow> path \<Rightarrow> bool" where
  "path_exists fs p = (fs p \<noteq> None)"

definition json_loads :: "(string \<Rightarrow> json option) \<Rightarrow> string \<Rightarrow> error + json" where
  "json_loads loads s = (case loads s of None \<Rightarrow> Inl JSONDecodeError | Some j \<Rightarrow> Inr j)"

record benchmark_run =
  run_path :: json
  run_report :: json
  run_test_results :: json

definition from_files ::
  "(string \<Rightarrow> json option) \<Rightarrow> text_files \<Rightarrow> path \<Rightarrow> path \<Rightarrow> path \<Rightarrow> error + benchmark_run" where
  "from_files loads fs path_file report_file test_results_file =
     err_bind (read_text fs path_file) (\<lambda>path_text.
     err_bind (json_loads loads path_text) (\<lambda>path.
     err_bind (read_text fs report_file) (\<lambda>report_text.
     err_bind (json_loads loads report_text) (\<lambda>report.
     err_bind
       (if path_exists fs test_results_file
        then err_bind (read_text fs test_results_file) (json_loads loads)
        else Inr (JObj []))
       (\<lambda>test_results.
     Inr \<lparr>run_path = path, run_report = report, run_test_results = test_results\<rparr>)))))"

section \<open>The benchmark model read by the plotter and the report factory\<close>

text \<open>
  The classes \<^verbatim>\<open>BenchmarkGenerator\<close>, \<^verbatim>\<open>Benchmark\<close>, its report and its run groups are
  declared outside the files at hand; each is the record of the attributes that the
  code reads. A \<^verbatim>\<open>dict\<close> is an association list in insertion order, its keys distinct.
\<close>

record benchmark_generator =
  stop_coverage :: int
  total_generation_time :: rat
  average_generation_time :: rat
  min_generation_time :: rat
  max_generation_time :: rat
  total_test_suite_size :: rat
  average_test_suite_size :: rat
  min_test_suite_size :: rat
  max_test_suite_size :: rat
  total_vertex_visits_individual :: "(string \<times> rat) list"
  total_edge_visits_individual :: "(string \<times> rat) list"
  average_vertex_visits_individual :: "(string \<times> rat) list"
  average_edge_visits_individual :: "(string \<times> rat) list"

type_synonym grouped = "(string \<times> benchmark_generator list) list"

section \<open>The filter: \<^verbatim>\<open>utils/benchmark_filter.py\<close>\<close>

text \<open>
  Modelled from the spec: \<^verbatim>\<open>filter_grouped_generators\<close> of \<^verbatim>\<open>utils/benchmark_filter.py\<close>
  is missing from the files at hand. The spec: if the whitelist is non-empty, only the
  generator names present in it are retained; if the blacklist is non-empty, the names
  present in it are removed from the (possibly already whitelisted) result; whitelist
  first, blacklist second. Both lists are optional (\<^verbatim>\<open>None\<close> at the callers' default).
\<close>

definition apply_whitelist :: "grouped \<Rightarrow> string list option \<Rightarrow> grouped" where
  "apply_whitelist g whitelist =
     (case whitelist of
        None \<Rightarrow> g
      | Some wl \<Rightarrow> if wl = [] then g else filter (\<lambda>(name, gens). name \<in> set wl) g)"

definition apply_blacklist :: "grouped \<Rightarrow> string list option \<Rightarrow> grouped" where
  "apply_blacklist g blacklist =
     (case blacklist of
        None \<Rightarrow> g
      | Some bl \<Rightarrow> if bl = [] then g else filter (\<lambda>(name, gens). name \<notin> set bl) g)"

definition filter_grouped_generators ::
  "grouped \<Rightarrow> string list option \<Rightarrow> string list option \<Rightarrow> grouped" where
  "filter_grouped_generators g whitelist blacklist =
     apply_blacklist (apply_whitelist g whitelist) blacklist"


section \<open>The plotter: \<^verbatim>\<open>plotters/benchmark_plotter.py\<close>\<close>

record model_info =
  vertices :: int
  edges :: int

record benchmark_report =
  generators_grouped :: grouped
  model :: model_info

record run_group =
  algorithm :: string
  rg_stop_coverage :: int
  successful_runs :: bool
  average_test_duration :: rat
  minimum_test_duration :: rat
  maximum_test_duration :: rat

record benchmark =
  name :: string
  report :: benchmark_report
  run_groups :: "run_group list"
  run_groups_sorted :: "run_group list"

text \<open>
  Drawing is matplotlib's and numpy's. A figure is what the code hands to them: its
  title, its axis labels and the drawing calls made on its axis, in order.
  \<open>Bar xs ys label width\<close> is \<^verbatim>\<open>ax.bar(xs, ys, label=label, width=width, align='center')\<close>;
  \<open>TrendLine xs ys deg\<close> is the dashed
  \<^verbatim>\<open>ax.plot(xs, np.poly1d(np.polyfit(xs, ys, deg))(xs), ...)\<close>;
  \<open>Line xs ys label\<close> is \<^verbatim>\<open>ax.plot(xs, ys, label=label)\<close>;
  \<open>Hist items weights bins label\<close> is \<^verbatim>\<open>ax.hist(items, weights=weights, bins=bins, label=label, alpha=0.5)\<close>;
  \<open>PostProcess\<close> is \<^verbatim>\<open>_post_process_plot\<close> (legend, tick rotation, tight layout).
  \<^verbatim>\<open>save_plot_bytesio\<close> encodes the current figure as PNG; the image is held as the figure.
\<close>

datatype draw_cmd =
  Bar "rat list" "rat list" string rat
  | TrendLine "rat list" "rat list" nat
  | Line "int list" "rat list" string
  | Hist "string list" "int list" nat string
  | XTicks "int list"
  | YGrid
  | PostProcess

record chart =
  title :: string
  xlabel :: string
  ylabel :: string
  drawn :: "draw_cmd list"

type_synonym plots = "(string \<times> chart) list"

definition new_chart :: "string \<Rightarrow> string \<Rightarrow> string \<Rightarrow> error + draw_cmd list \<Rightarrow> error + chart" where
  "new_chart t x y cmds =
     err_bind cmds (\<lambda>cs. Inr \<lparr>title = t, xlabel = x, ylabel = y, drawn = cs\<rparr>)"

text \<open>The two bytes of the UTF-8 encoding of the Greek letter in the unit of time.\<close>

definition mu :: string where
  "mu = [CHR 0xCE, CHR 0xBC]"

text \<open>\<^verbatim>\<open>str\<close> of an integer, as an f-string formats a coverage value.\<close>

fun digits :: "nat \<Rightarrow> string" where
  "digits n =
     (if n < 10 then [char_of (48 + n)]
      else digits (n div 10) @ [char_of (48 + n mod 10)])"

definition str_int :: "int \<Rightarrow> string" where
  "str_int i = (if i < 0 then CHR ''-'' # digits (nat (- i)) else digits (nat i))"

text \<open>
  The trend line of a series. \<^verbatim>\<open>np.polyfit\<close> raises \<^verbatim>\<open>TypeError\<close> when the vector of
  x positions is empty; on a non-empty series of rationals it fits, and the fitted line is
  drawn.
\<close>

definition trend_line :: "rat list \<Rightarrow> rat list \<Rightarrow> nat \<Rightarrow> error + draw_cmd" where
  "trend_line xs ys deg =
     (if xs = [] then Inl (TypeError ''expected non-empty vector for x'')
      else Inr (TrendLine xs ys deg))"

text \<open>
  The loop of \<^verbatim>\<open>_plot_bars\<close> and of \<^verbatim>\<open>_plot_bars_tests\<close> over the enumerated groups;
  \<open>cov\<close> reads the stop coverage of an element of a group. An exception of the value
  lambda or of the fit leaves the loop.
\<close>

fun bars_loop ::
  "rat \<Rightarrow> ('a \<Rightarrow> int) \<Rightarrow> ('a \<Rightarrow> error + rat) \<Rightarrow> bool \<Rightarrow> nat \<Rightarrow> (string \<times> 'a list) list
    \<Rightarrow> error + draw_cmd list" where
  "bars_loop bar_width cov value_lambda add_trend_line i [] = Inr []"
| "bars_loop bar_width cov value_lambda add_trend_line i ((generator_group, generators) # rest) =
     (let coverage_values =
            map (\<lambda>generator. of_int (cov generator) + of_nat i * bar_width) generators
      in err_bind (map_err value_lambda generators) (\<lambda>property_values.
         err_bind (if add_trend_line
                   then err_bind (trend_line coverage_values property_values 3) (\<lambda>t. Inr [t])
                   else Inr []) (\<lambda>trend.
         err_bind (bars_loop bar_width cov value_lambda add_trend_line (Suc i) rest) (\<lambda>cmds.
         Inr (Bar coverage_values property_values generator_group bar_width # trend @ cmds)))))"

text \<open>The ticks: the stop coverages of the group at \<^verbatim>\<open>next(iter(d))\<close>.\<close>

definition first_group_ticks :: "(string \<times> 'a list) list \<Rightarrow> ('a \<Rightarrow> int) \<Rightarrow> error + draw_cmd" where
  "first_group_ticks d cov =
     (case d of [] \<Rightarrow> Inl StopIteration | (k, vs) # rest \<Rightarrow> Inr (XTicks (map cov vs)))"

definition plot_bars ::
  "grouped \<Rightarrow> (benchmark_generator \<Rightarrow> error + rat) \<Rightarrow> bool \<Rightarrow> error + draw_cmd list" where
  "plot_bars grouped_generators value_lambda add_trend_line =
     err_bind (py_truediv 6 (of_nat (length grouped_generators))) (\<lambda>bar_width.
     err_bind (bars_loop bar_width stop_coverage value_lambda add_trend_line 0 grouped_generators)
       (\<lambda>bars.
     err_bind (first_group_ticks grouped_generators stop_coverage) (\<lambda>ticks.
     Inr (bars @ [ticks, YGrid, PostProcess]))))"

fun group_run_groups ::
  "string list \<Rightarrow> run_group list \<Rightarrow> (string \<times> run_group list) list
    \<Rightarrow> (string \<times> run_group list) list" where
  "group_run_groups keys [] grouped_run_groups = grouped_run_groups"
| "group_run_groups keys (rg # rest) grouped_run_groups =
     (if algorithm rg \<notin> set keys then group_run_groups keys rest grouped_run_groups
      else group_run_groups keys rest
        (case map_of grouped_run_groups (algorithm rg) of
           None \<Rightarrow> grouped_run_groups @ [(algorithm rg, [rg])]
         | Some rgs \<Rightarrow> AList.update (algorithm rg) (rgs @ [rg]) grouped_run_groups))"

definition plot_bars_tests ::
  "benchmark \<Rightarrow> grouped \<Rightarrow> (run_group \<Rightarrow> error + rat) \<Rightarrow> bool \<Rightarrow> error + draw_cmd list" where
  "plot_bars_tests b grouped_generators value_lambda add_trend_line =
     err_bind (py_truediv 6 (of_nat (length grouped_generators))) (\<lambda>bar_width.
     (let grouped_run_groups =
            group_run_groups (map fst grouped_generators) (run_groups_sorted b) []
      in err_bind (bars_loop bar_width rg_stop_coverage value_lambda add_trend_line 0
                    grouped_run_groups) (\<lambda>bars.
         err_bind (first_group_ticks grouped_run_groups rg_stop_coverage) (\<lambda>ticks.
         Inr (bars @ [ticks, YGrid, PostProcess])))))"

definition plot_lines ::
  "grouped \<Rightarrow> (benchmark_generator \<Rightarrow> error + rat) \<Rightarrow> error + draw_cmd list" where
  "plot_lines grouped_generators value_lambda =
     err_bind
       (map_err (\<lambda>(generator_group, generators).
          err_bind (map_err value_lambda generators) (\<lambda>property_values.
          Inr (Line (map stop_coverage generators) property_values generator_group)))
        grouped_generators) (\<lambda>lines.
     err_bind (first_group_ticks grouped_generators stop_coverage) (\<lambda>ticks.
     Inr (lines @ [ticks, YGrid, PostProcess])))"

text \<open>
  \<^verbatim>\<open>sorted(..., key=lambda x: x[1], reverse=True)\<close> is stable: items of equal count keep
  their order, as the stable \<open>sort_key\<close> on the negated count does. For a generator
  whose mapping of visits is empty the number of bins is zero, and \<^verbatim>\<open>ax.hist\<close> raises
  \<^verbatim>\<open>ValueError\<close>.
\<close>

definition histogram_of ::
  "(benchmark_generator \<Rightarrow> (string \<times> rat) list) \<Rightarrow> int \<Rightarrow> string \<Rightarrow> benchmark_generator
    \<Rightarrow> error + draw_cmd list" where
  "histogram_of property_lambda coverage_value generator_group generator =
     (if stop_coverage generator \<noteq> coverage_value then Inr []
      else (let sorted_items = sort_key (\<lambda>x. - snd x) (property_lambda generator);
                items = map fst sorted_items;
                item_visits = map (\<lambda>item. py_int (snd item)) sorted_items
            in if length items = 0
               then Inl (ValueError ([CHR 0x60] @ ''bins'' @ [CHR 0x60]
                                      @ '' must be positive, when an integer''))
               else Inr [Hist items item_visits (length items) generator_group]))"

definition plot_histogram ::
  "grouped \<Rightarrow> (benchmark_generator \<Rightarrow> (string \<times> rat) list) \<Rightarrow> int
    \<Rightarrow> error + draw_cmd list" where
  "plot_histogram grouped_generators property_lambda coverage_value =
     err_bind
       (map_err (\<lambda>(generator_group, generators).
          err_bind (map_err (histogram_of property_lambda coverage_value generator_group)
                      generators) (\<lambda>drawn_bars. Inr (concat drawn_bars)))
        grouped_generators) (\<lambda>drawn_groups.
     Inr (concat drawn_groups @ [XTicks [], PostProcess]))"

subsection \<open>The chart functions\<close>

text \<open>
  The class attribute \<^verbatim>\<open>BenchmarkPlotter.benchmark\<close> is process-wide state: it is
  declared without a value, \<^verbatim>\<open>create_plots\<close> assigns it, and a chart function may read
  it. A chart function of the registries therefore takes its value (\<open>None\<close> while the
  attribute is unset) before its explicit arguments.
\<close>

definition plot_total_time :: "grouped \<Rightarrow> error + chart" where
  "plot_total_time grouped_generators =
     new_chart ''Total generation time per generator by coverage value''
       ''Coverage (%)'' (''Total Time ('' @ mu @ ''s)'')
       (plot_bars grouped_generators (\<lambda>generator. Inr (total_generation_time generator)) True)"

definition plot_total_size :: "grouped \<Rightarrow> error + chart" where
  "plot_total_size grouped_generators =
     new_chart ''Total test suite size per generator by coverage value''
       ''Coverage (%)'' (''Total Size (element count)'')
       (plot_bars grouped_generators (\<lambda>generator. Inr (total_test_suite_size generator)) True)"

definition plot_average_time :: "grouped \<Rightarrow> error + chart" where
  "plot_average_time grouped_generators =
     new_chart ''Average generation time per generator by coverage value''
       ''Coverage (%)'' (''Average Time ('' @ mu @ ''s)'')
       (plot_bars grouped_generators (\<lambda>generator. Inr (average_generation_time generator)) True)"

definition plot_average_size :: "grouped \<Rightarrow> error + chart" where
  "plot_average_size grouped_generators =
     new_chart ''Average test suite size per generator by coverage value''
       ''Coverage (%)'' (''Average Size (element count)'')
       (plot_bars grouped_generators (\<lambda>generator. Inr (average_test_suite_size generator)) True)"

definition plot_minimum_time :: "grouped \<Rightarrow> error + chart" where
  "plot_minimum_time grouped_generators =
     new_chart ''Minimum generation time per generator by coverage value''
       ''Coverage (%)'' (''Minimum Time ('' @ mu @ ''s)'')
       (plot_bars grouped_generators (\<lambda>generator. Inr (min_generation_time generator)) True)"

definition plot_maximum_time :: "grouped \<Rightarrow> error + chart" where
  "plot_maximum_time grouped_generators =
     new_chart ''Maximum generation time per generator by coverage value''
       ''Coverage (%)'' (''Maximum Time ('' @ mu @ ''s)'')
       (plot_bars grouped_generators (\<lambda>generator. Inr (max_generation_time generator)) True)"

definition plot_minimum_size :: "grouped \<Rightarrow> error + chart" where
  "plot_minimum_size grouped_generators =
     new_chart ''Minimum test suite size per generator by coverage value''
       ''Coverage (%)'' (''Minimum Size (element count)'')
       (plot_bars grouped_generators (\<lambda>generator. Inr (min_test_suite_size generator)) True)"

definition plot_maximum_size :: "grouped \<Rightarrow> error + chart" where
  "plot_maximum_size grouped_generators =
     new_chart ''Maximum test suite size per generator by coverage value''
       ''Coverage (%)'' (''Maximum Size (element count)'')
       (plot_bars grouped_generators (\<lambda>generator. Inr (max_test_suite_size generator)) True)"

definition plot_max_minus_min_size :: "grouped \<Rightarrow> error + chart" where
  "plot_max_minus_min_size grouped_generators =
     new_chart ''Difference between maximum and minimum test suite size\<newline>per generator by coverage value''
       ''Coverage (%)'' (''Difference (element count)'')
       (plot_bars grouped_generators (\<lambda>generator. Inr (max_test_suite_size generator - min_test_suite_size generator)) True)"

definition plot_max_minus_min_time :: "grouped \<Rightarrow> error + chart" where
  "plot_max_minus_min_time grouped_generators =
     new_chart ''Difference between maximum and minimum generation time\<newline>per generator by coverage value''
       ''Coverage (%)'' (''Difference ('' @ mu @ ''s)'')
       (plot_bars grouped_generators (\<lambda>generator. Inr (max_generation_time generator - min_generation_time generator)) True)"

definition plot_coverage_vs_time :: "grouped \<Rightarrow> error + chart" where
  "plot_coverage_vs_time grouped_generators =
     new_chart ''Coverage vs Generation time per generator''
       ''Coverage (%)'' (''Time ('' @ mu @ ''s)'')
       (plot_lines grouped_generators (\<lambda>generator. Inr (total_generation_time generator)))"

text \<open>The value lambda of the Size over Time chart.\<close>

definition size_over_time :: "benchmark_generator \<Rightarrow> error + rat" where
  "size_over_time generator =
     py_truediv (average_test_suite_size generator) (average_generation_time generator)"

definition plot_average_size_divided_by_average_time :: "grouped \<Rightarrow> error + chart" where
  "plot_average_size_divided_by_average_time grouped_generators =
     new_chart ''Average test suite size divided by\<newline>average generation time per generator by coverage value''
       ''Coverage (%)'' (''Size/Time (element count/'' @ mu @ ''s)'')
       (plot_bars grouped_generators size_over_time True)"

definition plot_average_vertex_percentage_total_visits :: "benchmark option \<Rightarrow> grouped \<Rightarrow> error + chart" where
  "plot_average_vertex_percentage_total_visits plotter_benchmark grouped_generators =
     new_chart ''Percentage of unique vertices visited\<newline>in an average traversal''
       ''Coverage (%)'' ''Average Percentage (%)''
       (plot_bars grouped_generators
          (\<lambda>generator.
             (let visited = count_list
                    (map (\<lambda>vertex_visits. 1) (filter (\<lambda>vertex_visits. vertex_visits \<noteq> 0)
                       (map snd (average_vertex_visits_individual generator)))) (1 :: int)
              in case plotter_benchmark of
                   None \<Rightarrow> Inl AttributeError
                 | Some b \<Rightarrow>
                     err_bind (py_truediv (of_nat visited) (of_int (vertices (model (report b)))))
                       (\<lambda>q. Inr (q * 100))))
          True)"

definition plot_average_edge_percentage_total_visits :: "benchmark option \<Rightarrow> grouped \<Rightarrow> error + chart" where
  "plot_average_edge_percentage_total_visits plotter_benchmark grouped_generators =
     new_chart ''Percentage of unique edges visited\<newline>in an average traversal''
       ''Coverage (%)'' ''Average Percentage (%)''
       (plot_bars grouped_generators
          (\<lambda>generator.
             (let visited = count_list
                    (map (\<lambda>edge_visits. 1) (filter (\<lambda>edge_visits. edge_visits \<noteq> 0)
                       (map snd (average_edge_visits_individual generator)))) (1 :: int)
              in case plotter_benchmark of
                   None \<Rightarrow> Inl AttributeError
                 | Some b \<Rightarrow>
                     err_bind (py_truediv (of_nat visited) (of_int (edges (model (report b)))))
                       (\<lambda>q. Inr (q * 100))))
          True)"

definition plot_average_vs_minimum_time :: "grouped \<Rightarrow> error + chart" where
  "plot_average_vs_minimum_time grouped_generators =
     new_chart ''Average generation time compared to minimum generation time\<newline>per generator by coverage value''
       ''Coverage (%)'' (''Time ('' @ mu @ ''s)'')
       (plot_bars grouped_generators (\<lambda>generator. Inr (average_generation_time generator - min_generation_time generator)) True)"

definition plot_average_vs_minimum_size :: "grouped \<Rightarrow> error + chart" where
  "plot_average_vs_minimum_size grouped_generators =
     new_chart ''Average test suite size compared to minimum test suite size\<newline>per generator by coverage value''
       ''Coverage (%)'' (''Size (element count)'')
       (plot_bars grouped_generators (\<lambda>generator. Inr (average_test_suite_size generator - min_test_suite_size generator)) True)"

definition plot_histogram_total_visited_vertices :: "grouped \<Rightarrow> int \<Rightarrow> error + chart" where
  "plot_histogram_total_visited_vertices grouped_generators coverage_value =
     new_chart (''Vertex total visit count histogram for\<newline>coverage value '' @ str_int coverage_value @ ''%'')
       ''Vertex'' ''Visit Count''
       (plot_histogram grouped_generators total_vertex_visits_individual coverage_value)"

definition plot_histogram_total_visited_edges :: "grouped \<Rightarrow> int \<Rightarrow> error + chart" where
  "plot_histogram_total_visited_edges grouped_generators coverage_value =
     new_chart (''Edge total visit count histogram for\<newline>coverage value '' @ str_int coverage_value @ ''%'')
       ''Edge'' ''Visit Count''
       (plot_histogram grouped_generators total_edge_visits_individual coverage_value)"

definition plot_histogram_average_visited_vertices :: "grouped \<Rightarrow> int \<Rightarrow> error + chart" where
  "plot_histogram_average_visited_vertices grouped_generators coverage_value =
     new_chart (''Vertex average visit count histogram for\<newline>coverage value '' @ str_int coverage_value @ ''%'')
       ''Vertex'' ''Visit Count''
       (plot_histogram grouped_generators average_vertex_visits_individual coverage_value)"

definition plot_histogram_average_visited_edges :: "grouped \<Rightarrow> int \<Rightarrow> error + chart" where
  "plot_histogram_average_visited_edges grouped_generators coverage_value =
     new_chart (''Edge average visit count histogram for\<newline>coverage value '' @ str_int coverage_value @ ''%'')
       ''Edge'' ''Visit Count''
       (plot_histogram grouped_generators average_edge_visits_individual coverage_value)"

definition plot_average_test_execution_time :: "benchmark \<Rightarrow> grouped \<Rightarrow> error + chart" where
  "plot_average_test_execution_time b grouped_generators =
     new_chart ''Average test execution time per generator by coverage value''
       ''Coverage (%)'' (''Average Time ('' @ mu @ ''s)'')
       (plot_bars_tests b grouped_generators (\<lambda>run_group. Inr (average_test_duration run_group)) True)"

definition plot_minimum_test_execution_time :: "benchmark \<Rightarrow> grouped \<Rightarrow> error + chart" where
  "plot_minimum_test_execution_time b grouped_generators =
     new_chart ''Minimum test execution time per generator by coverage value''
       ''Coverage (%)'' (''Minimum Time ('' @ mu @ ''s)'')
       (plot_bars_tests b grouped_generators (\<lambda>run_group. Inr (minimum_test_duration run_group)) True)"

definition plot_maximum_test_execution_time :: "benchmark \<Rightarrow> grouped \<Rightarrow> error + chart" where
  "plot_maximum_test_execution_time b grouped_generators =
     new_chart ''Maximum test execution time per generator by coverage value''
       ''Coverage (%)'' (''Maximum Time ('' @ mu @ ''s)'')
       (plot_bars_tests b grouped_generators (\<lambda>run_group. Inr (maximum_test_duration run_group)) True)"

definition get_plot_functions ::
  "(string \<times> (benchmark option \<Rightarrow> grouped \<Rightarrow> error + chart)) list" where
  "get_plot_functions =
     [(''Total Time'', \<lambda>plotter_benchmark. plot_total_time),
      (''Total Size'', \<lambda>plotter_benchmark. plot_total_size),
      (''Average Time'', \<lambda>plotter_benchmark. plot_average_time),
      (''Average Size'', \<lambda>plotter_benchmark. plot_average_size),
      (''Minimum Time'', \<lambda>plotter_benchmark. plot_minimum_time),
      (''Maximum Time'', \<lambda>plotter_benchmark. plot_maximum_time),
      (''Minimum Size'', \<lambda>plotter_benchmark. plot_minimum_size),
      (''Maximum Size'', \<lambda>plotter_benchmark. plot_maximum_size),
      (''Max-Min Size'', \<lambda>plotter_benchmark. plot_max_minus_min_size),
      (''Max-Min Time'', \<lambda>plotter_benchmark. plot_max_minus_min_time),
      (''Coverage vs Time'', \<lambda>plotter_benchmark. plot_coverage_vs_time),
      (''Size over Time'', \<lambda>plotter_benchmark. plot_average_size_divided_by_average_time),
      (''Average Vertex Visits %'', plot_average_vertex_percentage_total_visits),
      (''Average Edge Visits %'', plot_average_edge_percentage_total_visits),
      (''Average vs Minimum Time'', \<lambda>plotter_benchmark. plot_average_vs_minimum_time),
      (''Average vs Minimum Size'', \<lambda>plotter_benchmark. plot_average_vs_minimum_size)]"

definition get_per_coverage_plot_functions ::
  "(string \<times> (benchmark option \<Rightarrow> grouped \<Rightarrow> int \<Rightarrow> error + chart)) list" where
  "get_per_coverage_plot_functions =
     [(''Histogram Total Visited Vertices'', \<lambda>plotter_benchmark. plot_histogram_total_visited_vertices),
      (''Histogram Total Visited Edges'', \<lambda>plotter_benchmark. plot_histogram_total_visited_edges),
      (''Histogram Average Visited Vertices'', \<lambda>plotter_benchmark. plot_histogram_average_visited_vertices),
      (''Histogram Average Visited Edges'', \<lambda>plotter_benchmark. plot_histogram_average_visited_edges)]"

definition get_test_execution_plot_functions ::
  "(string \<times> (benchmark option \<Rightarrow> benchmark \<Rightarrow> grouped \<Rightarrow> error + chart)) list" where
  "get_test_execution_plot_functions =
     [(''Average Test Execution Time'', \<lambda>plotter_benchmark. plot_average_test_execution_time),
      (''Minimum Test Execution Time'', \<lambda>plotter_benchmark. plot_minimum_test_execution_time),
      (''Maximum Test Execution Time'', \<lambda>plotter_benchmark. plot_maximum_test_execution_time)]"

subsection \<open>\<^verbatim>\<open>create_plots\<close>\<close>

text \<open>
  A loop over the items of a registry: \<open>run\<close> calls the chart function, and
  \<^verbatim>\<open>plots[name] = save_plot_bytesio()\<close> is \<open>AList.update\<close>, which replaces the value of
  a key the dict has and appends a new key. \<^verbatim>\<open>plt.show()\<close> displays the figure and
  changes nothing that the code reads afterwards.
\<close>

fun plot_loop :: "('f \<Rightarrow> error + chart) \<Rightarrow> (string \<times> 'f) list \<Rightarrow> plots \<Rightarrow> error + plots" where
  "plot_loop run [] plots = Inr plots"
| "plot_loop run ((plot_function_name, plot_function) # rest) plots =
     err_bind (run plot_function) (\<lambda>figure.
       plot_loop run rest (AList.update plot_function_name figure plots))"

text \<open>The key of a per-coverage chart: \<^verbatim>\<open>f'{plot_function_name} - {coverage_value}%'\<close>.\<close>

definition plot_key :: "string \<Rightarrow> int \<Rightarrow> string" where
  "plot_key plot_function_name coverage_value =
     plot_function_name @ '' - '' @ str_int coverage_value @ ''%''"

fun coverage_loop :: "(int \<Rightarrow> error + chart) \<Rightarrow> string \<Rightarrow> int list \<Rightarrow> plots \<Rightarrow> error + plots" where
  "coverage_loop plot_function plot_function_name [] plots = Inr plots"
| "coverage_loop plot_function plot_function_name (coverage_value # rest) plots =
     err_bind (plot_function coverage_value) (\<lambda>figure.
       coverage_loop plot_function plot_function_name rest
         (AList.update (plot_key plot_function_name coverage_value) figure plots))"

fun per_coverage_loop ::
  "(string \<times> (int \<Rightarrow> error + chart)) list \<Rightarrow> int list \<Rightarrow> plots \<Rightarrow> error + plots" where
  "per_coverage_loop [] coverage_values plots = Inr plots"
| "per_coverage_loop ((plot_function_name, plot_function) # rest) coverage_values plots =
     err_bind (coverage_loop plot_function plot_function_name coverage_values plots)
       (per_coverage_loop rest coverage_values)"

definition prepare_coverage_values :: "grouped \<Rightarrow> int list" where
  "prepare_coverage_values grouped_generators =
     sort (fold (\<lambda>(generator_group, generators) coverage_values.
             fold (\<lambda>generator coverage_values.
                     if stop_coverage generator \<notin> set coverage_values
                     then coverage_values @ [stop_coverage generator]
                     else coverage_values)
                  generators coverage_values)
           grouped_generators [])"

text \<open>
  \<^verbatim>\<open>create_plots\<close> answers its result and the new value of the class attribute.
\<close>

definition create_plots ::
  "benchmark option \<Rightarrow> benchmark \<Rightarrow> grouped \<Rightarrow> bool
    \<Rightarrow> (error + plots) \<times> benchmark option" where
  "create_plots plotter_benchmark b grouped_generators show_plots =
     (let plotter_benchmark = Some b
      in (err_bind (plot_loop (\<lambda>plot_function. plot_function plotter_benchmark grouped_generators)
                      get_plot_functions []) (\<lambda>plots.
          err_bind (if list_all successful_runs (run_groups b)
                    then plot_loop (\<lambda>plot_function. plot_function plotter_benchmark b grouped_generators)
                           get_test_execution_plot_functions plots
                    else Inr plots) (\<lambda>plots.
          per_coverage_loop
            (map (\<lambda>(plot_function_name, plot_function).
                    (plot_function_name, plot_function plotter_benchmark grouped_generators))
               get_per_coverage_plot_functions)
            (prepare_coverage_values grouped_generators) plots)),
          plotter_benchmark))"


section \<open>The report factory: \<^verbatim>\<open>report/report_factory.py\<close>\<close>

text \<open>
  The state that a report changes: the files and the directories of the file system,
  and the class attribute of the plotter. An exception leaves the state as it is when the
  exception is raised; nothing is rolled back. A path is the list of its components,
  and \<open>[]\<close> is the directory that relative paths start from. What the code prints on
  the console is not part of the state.
\<close>

datatype file_content =
  Text string
  | Png chart
  | Pdf path

record world =
  files :: "path \<rightharpoonup> file_content"
  dirs :: "path set"
  plotter_benchmark :: "benchmark option"

definition w_bind ::
  "(error + 'a) \<times> world \<Rightarrow> ('a \<Rightarrow> world \<Rightarrow> (error + 'b) \<times> world) \<Rightarrow> (error + 'b) \<times> world" where
  "w_bind m f = (case m of (Inl e, w) \<Rightarrow> (Inl e, w) | (Inr x, w) \<Rightarrow> f x w)"

text \<open>\<^verbatim>\<open>open(p, 'w')\<close> creates or empties the file; \<^verbatim>\<open>f.write\<close> then stores the content.\<close>

definition open_w :: "path \<Rightarrow> world \<Rightarrow> (error + unit) \<times> world" where
  "open_w p w =
     (if p \<in> dirs w then (Inl IsADirectoryError, w)
      else if files w (butlast p) \<noteq> None then (Inl NotADirectoryError, w)
      else if butlast p \<noteq> [] \<and> butlast p \<notin> dirs w then (Inl FileNotFoundError, w)
      else (Inr (), w\<lparr>files := (files w)(p \<mapsto> Text [])\<rparr>))"

definition write_content :: "path \<Rightarrow> file_content \<Rightarrow> world \<Rightarrow> (error + unit) \<times> world" where
  "write_content p c w = (Inr (), w\<lparr>files := (files w)(p \<mapsto> c)\<rparr>)"

text \<open>\<^verbatim>\<open>Path.mkdir(parents=True, exist_ok=...)\<close>.\<close>

definition mkdir :: "path \<Rightarrow> bool \<Rightarrow> world \<Rightarrow> (error + unit) \<times> world" where
  "mkdir p exist_ok w =
     (if p \<in> dirs w then (if exist_ok then (Inr (), w) else (Inl FileExistsError, w))
      else if files w p \<noteq> None then (Inl FileExistsError, w)
      else if list_ex (\<lambda>q. files w q \<noteq> None) (prefixes p) then (Inl NotADirectoryError, w)
      else (Inr (), w\<lparr>dirs := dirs w \<union> set (prefixes p)\<rparr>))"

definition rmtree :: "path \<Rightarrow> world \<Rightarrow> (error + unit) \<times> world" where
  "rmtree p w =
     (if p \<notin> dirs w then (Inl FileNotFoundError, w)
      else (Inr (), w\<lparr>files := (\<lambda>q. if prefix p q then None else files w q),
                       dirs := Set.filter (\<lambda>q. \<not> prefix p q) (dirs w)\<rparr>))"

text \<open>
  \<^verbatim>\<open>str.lower\<close>, on the bytes of a string: the letters A to Z change. No character
  beyond ASCII has a lower case that is one of the letters of the three report types.
\<close>

definition lower_char :: "char \<Rightarrow> char" where
  "lower_char c =
     (let n = (of_char c :: nat) in if 65 \<le> n \<and> n \<le> 90 then char_of (n + 32) else c)"

definition lower :: "string \<Rightarrow> string" where
  "lower s = map lower_char s"

text \<open>
  What the factory calls and these files do not hold: the statistics builder
  (\<^verbatim>\<open>BenchmarkStatistics.create_statistics\<close>), \<^verbatim>\<open>json.dumps\<close> of the report and of the
  statistics, and the line that \<^verbatim>\<open>input()\<close> reads. Each of the three calls may raise.
\<close>

record 's externals =
  create_statistics :: "grouped \<Rightarrow> error + 's"
  dumps_report :: "benchmark_report \<Rightarrow> error + string"
  dumps_statistics :: "'s \<Rightarrow> error + string"
  console_input :: string

text \<open>
  A call of \<^verbatim>\<open>BenchmarkPlotter.create_plots\<close> with positional arguments. The signature is
  \<^verbatim>\<open>create_plots(benchmark, grouped_generators, show=False)\<close>: Python binds the arguments
  to the parameters in order and raises \<^verbatim>\<open>TypeError\<close> before the body runs when a
  parameter without a default gets none, or when there are more than three. No caller
  passes an argument of another class than the parameter's; the body would then fail at
  the first attribute that the argument lacks.
\<close>

datatype py_arg =
  ArgBenchmark benchmark
  | ArgGrouped grouped
  | ArgBool bool

definition missing_grouped_generators :: error where
  "missing_grouped_generators =
     TypeError (''BenchmarkPlotter.create_plots() missing 1 required positional argument: ''
                @ [CHR 0x27] @ ''grouped_generators'' @ [CHR 0x27])"

definition call_create_plots :: "py_arg list \<Rightarrow> world \<Rightarrow> (error + plots) \<times> world" where
  "call_create_plots args w =
     (if length args = 0
      then (Inl (TypeError (''BenchmarkPlotter.create_plots() missing 2 required positional arguments: ''
                   @ [CHR 0x27] @ ''benchmark'' @ [CHR 0x27] @ '' and ''
                   @ [CHR 0x27] @ ''grouped_generators'' @ [CHR 0x27])), w)
      else if length args = 1
      then (Inl missing_grouped_generators, w)
      else if 3 < length args
      then (Inl (TypeError (''BenchmarkPlotter.create_plots() takes from 2 to 3 positional arguments but ''
                   @ str_int (int (length args)) @ '' were given'')), w)
      else (case (args ! 0, args ! 1, if length args = 3 then args ! 2 else ArgBool False) of
              (ArgBenchmark b, ArgGrouped g, ArgBool show_plots) \<Rightarrow>
                (case create_plots (plotter_benchmark w) b g show_plots of
                   (r, pb) \<Rightarrow> (r, w\<lparr>plotter_benchmark := pb\<rparr>))
            | _ \<Rightarrow> (Inl AttributeError, w)))"

fun write_images :: "path \<Rightarrow> plots \<Rightarrow> world \<Rightarrow> (error + unit) \<times> world" where
  "write_images images_dir [] w = (Inr (), w)"
| "write_images images_dir ((plot_name, figure) # rest) w =
     w_bind (open_w (images_dir @ [plot_name @ ''.png'']) w) (\<lambda>u w.
     w_bind (write_content (images_dir @ [plot_name @ ''.png'']) (Png figure) w) (\<lambda>u w.
     write_images images_dir rest w))"

definition create_raw_report ::
  "'s externals \<Rightarrow> benchmark \<Rightarrow> path \<Rightarrow> string list option \<Rightarrow> string list option \<Rightarrow> world
    \<Rightarrow> (error + unit) \<times> world" where
  "create_raw_report ext b output whitelist blacklist w =
     (let grouped_generators =
            filter_grouped_generators (generators_grouped (report b)) whitelist blacklist
      in w_bind (create_statistics ext grouped_generators, w) (\<lambda>statistics w.
         w_bind (call_create_plots [ArgGrouped grouped_generators] w) (\<lambda>plots w.
         w_bind (open_w (output @ [''benchmarks.json'']) w) (\<lambda>u w.
         w_bind (dumps_report ext (report b), w) (\<lambda>report_json w.
         w_bind (write_content (output @ [''benchmarks.json'']) (Text report_json) w) (\<lambda>u w.
         w_bind (open_w (output @ [''statistics.json'']) w) (\<lambda>u w.
         w_bind (dumps_statistics ext statistics, w) (\<lambda>statistics_json w.
         w_bind (write_content (output @ [''statistics.json'']) (Text statistics_json) w) (\<lambda>u w.
         w_bind (mkdir (output @ [''images'']) True w) (\<lambda>u w.
         write_images (output @ [''images'']) plots w))))))))))"

definition html_text :: "benchmark \<Rightarrow> plots \<Rightarrow> string" where
  "html_text b plots =
     ''<html>\<newline>'' @ ''<head>\<newline>'' @ ''<title>GraphWalker Benchmark Report</title>\<newline>''
     @ ''</head>\<newline>'' @ ''<body>\<newline>''
     @ ''<h1>GraphWalker Benchmark Report: '' @ name b @ ''</h1>\<newline>''
     @ ''<h2>Statistics</h2>\<newline>'' @ ''<table>\<newline>''
     @ ''<tr><th>Statistic</th><th>Value</th></tr>\<newline>'' @ ''</table>\<newline>''
     @ ''<h2>Plots</h2>\<newline>''
     @ concat (map (\<lambda>plot_name.
         ''<img src='' @ [CHR 0x22] @ ''images/'' @ plot_name @ ''.png'' @ [CHR 0x22]
         @ '' alt='' @ [CHR 0x22] @ plot_name @ [CHR 0x22] @ ''>\<newline>'') (map fst plots))
     @ ''</body>\<newline>'' @ ''</html>\<newline>''"

definition create_html_report ::
  "'s externals \<Rightarrow> benchmark \<Rightarrow> path \<Rightarrow> string list option \<Rightarrow> string list option \<Rightarrow> world
    \<Rightarrow> (error + unit) \<times> world" where
  "create_html_report ext b output whitelist blacklist w =
     (let grouped_generators =
            filter_grouped_generators (generators_grouped (report b)) whitelist blacklist
      in w_bind (call_create_plots [ArgGrouped grouped_generators] w) (\<lambda>plots w.
         w_bind (create_statistics ext grouped_generators, w) (\<lambda>statistics w.
         w_bind (mkdir (output @ [''images'']) True w) (\<lambda>u w.
         w_bind (write_images (output @ [''images'']) plots w) (\<lambda>u w.
         w_bind (open_w (output @ [''index.html'']) w) (\<lambda>u w.
         write_content (output @ [''index.html'']) (Text (html_text b plots)) w))))))"

text \<open>
  The browser that prints the page is Playwright's: \<open>Pdf p\<close> is the PDF that it prints of
  the page at \<open>p\<close>.
\<close>

definition create_pdf_report ::
  "'s externals \<Rightarrow> benchmark \<Rightarrow> path \<Rightarrow> string list option \<Rightarrow> string list option \<Rightarrow> world
    \<Rightarrow> (error + unit) \<times> world" where
  "create_pdf_report ext b output whitelist blacklist w =
     (let temp_dir = output @ [''temp'']
      in w_bind (mkdir temp_dir False w) (\<lambda>u w.
         w_bind (create_html_report ext b temp_dir whitelist blacklist w) (\<lambda>u w.
         w_bind (open_w (output @ [''report.pdf'']) w) (\<lambda>u w.
         w_bind (write_content (output @ [''report.pdf'']) (Pdf (temp_dir @ [''index.html''])) w)
           (\<lambda>u w.
         if lower (console_input ext) = ''y'' then rmtree temp_dir w else (Inr (), w))))))"

text \<open>The object: \<^verbatim>\<open>self.report\<close> is set to \<^verbatim>\<open>None\<close> and never read.\<close>

record report_factory =
  report_type :: string

definition create_report ::
  "report_factory \<Rightarrow> 's externals \<Rightarrow> benchmark \<Rightarrow> path \<Rightarrow> string list option
    \<Rightarrow> string list option \<Rightarrow> world \<Rightarrow> (error + unit) \<times> world" where
  "create_report self ext b output whitelist blacklist w =
     (if lower (report_type self) = ''html''
      then create_html_report ext b output whitelist blacklist w
      else if lower (report_type self) = ''pdf''
      then create_pdf_report ext b output whitelist blacklist w
      else if lower (report_type self) = ''raw_data''
      then create_raw_report ext b output whitelist blacklist w
      else (Inl (ValueError (''Unknown report type '' @ [CHR 0x22] @ report_type self @ [CHR 0x22])),
            w))"


section \<open>Observations on figures, and example inputs\<close>

text \<open>The heights of the bars of a figure, series by series, and the trend lines drawn.\<close>

fun bar_heights :: "draw_cmd list \<Rightarrow> rat list list" where
  "bar_heights [] = []"
| "bar_heights (Bar xs ys l w # cmds) = ys # bar_heights cmds"
| "bar_heights (c # cmds) = bar_heights cmds"

fun trend_lines :: "draw_cmd list \<Rightarrow> (rat list \<times> rat list \<times> nat) list" where
  "trend_lines [] = []"
| "trend_lines (TrendLine xs ys d # cmds) = (xs, ys, d) # trend_lines cmds"
| "trend_lines (c # cmds) = trend_lines cmds"

text \<open>
  The scenario of the specification: the generators Random and Weighted, each at the stop
  coverages 50 and 100, on a model of two vertices and one edge.
\<close>

definition example_generator :: "int \<Rightarrow> rat \<Rightarrow> benchmark_generator" where
  "example_generator c t =
     \<lparr>stop_coverage = c,
      total_generation_time = 2 * t, average_generation_time = t,
      min_generation_time = t - 5, max_generation_time = t + 5,
      total_test_suite_size = 8, average_test_suite_size = 4,
      min_test_suite_size = 3, max_test_suite_size = 5,
      total_vertex_visits_individual = [(''v1'', 3), (''v2'', 1)],
      total_edge_visits_individual = [(''e1'', 2)],
      average_vertex_visits_individual = [(''v1'', 3 / 2), (''v2'', 1 / 2)],
      average_edge_visits_individual = [(''e1'', 1)]\<rparr>"

definition example_grouped :: grouped where
  "example_grouped =
     [(''Random'', [example_generator 50 15, example_generator 100 20]),
      (''Weighted'', [example_generator 50 10, example_generator 100 30])]"

definition example_run_group :: "string \<Rightarrow> int \<Rightarrow> bool \<Rightarrow> run_group" where
  "example_run_group a c ok =
     \<lparr>algorithm = a, rg_stop_coverage = c, successful_runs = ok,
      average_test_duration = 7, minimum_test_duration = 6, maximum_test_duration = 9\<rparr>"

definition example_benchmark :: "int \<Rightarrow> bool \<Rightarrow> benchmark" where
  "example_benchmark v ok =
     \<lparr>name = ''demo'',
      report = \<lparr>generators_grouped = example_grouped, model = \<lparr>vertices = v, edges = 1\<rparr>\<rparr>,
      run_groups = [example_run_group ''Random'' 50 True, example_run_group ''Weighted'' 50 ok],
      run_groups_sorted =
        [example_run_group ''Random'' 50 True, example_run_group ''Weighted'' 50 ok]\<rparr>"

definition example_externals :: "unit externals" where
  "example_externals =
     \<lparr>create_statistics = (\<lambda>g. Inr ()), dumps_report = (\<lambda>r. Inr ''{}''),
      dumps_statistics = (\<lambda>s. Inr ''{}''), console_input = ''y''\<rparr>"

definition example_world :: world where
  "example_world = \<lparr>files = Map.empty, dirs = {[''out'']}, plotter_benchmark = None\<rparr>"

definition example_loads :: "string \<Rightarrow> json option" where
  "example_loads s = (if s = ''{}'' then Some (JObj []) else None)"

definition example_files :: text_files where
  "example_files = [[''path.json''] \<mapsto> ''{}'', [''report.json''] \<mapsto> ''{}'']"

text \<open>The number that a string of decimal digits denotes.\<close>

definition digits_value :: "string \<Rightarrow> nat" where
  "digits_value s = foldl (\<lambda>a c. 10 * a + (of_char c - 48)) 0 s"

section \<open>Sequencing lemmas\<close>

lemma err_bind_simps [simp]:
  "err_bind (Inl e) f = Inl e"
  "err_bind (Inr x) f = f x"
  by (simp_all add: err_bind_def)

lemma w_bind_simps [simp]:
  "w_bind (Inl e, w) f = (Inl e, w)"
  "w_bind (Inr x, w) f = f x w"
  by (simp_all add: w_bind_def)

lemma err_bind_eq_Inr:
  "err_bind m f = Inr y \<longleftrightarrow> (\<exists>x. m = Inr x \<and> f x = Inr y)"
  by (cases m) simp_all

section \<open>The run loader\<close>

text \<open>
  Claim C9. When the test-results file does not exist, the loader returns a run exactly
  when the path file and the report file exist and parse, and the test results of that run
  are the empty mapping: the missing file raises nothing. The path file and the report
  file are read and parsed whatever the third file is: a run is only returned when both
  exist and parse, a missing path file is \<^verbatim>\<open>FileNotFoundError\<close> and an unparseable one
  is a decoding error.
\<close>

theorem from_files_optional_test_results:
  "(fs t = None \<longrightarrow>
      (from_files loads fs p r t = Inr run \<longleftrightarrow>
         (\<exists>pt rt pj rj. fs p = Some pt \<and> loads pt = Some pj \<and> fs r = Some rt \<and> loads rt = Some rj
            \<and> run = \<lparr>run_path = pj, run_report = rj, run_test_results = JObj []\<rparr>)))
   \<and> (from_files loads fs p r t = Inr run \<longrightarrow>
         (\<exists>pt rt. fs p = Some pt \<and> loads pt = Some (run_path run)
            \<and> fs r = Some rt \<and> loads rt = Some (run_report run)))
   \<and> (fs p = None \<longrightarrow> from_files loads fs p r t = Inl FileNotFoundError)
   \<and> ((\<exists>pt. fs p = Some pt \<and> loads pt = None) \<longrightarrow>
         from_files loads fs p r t = Inl JSONDecodeError)
   \<and> ((\<exists>pt pj. fs p = Some pt \<and> loads pt = Some pj) \<and> fs r = None \<longrightarrow>
         from_files loads fs p r t = Inl FileNotFoundError)
   \<and> ((\<exists>pt pj. fs p = Some pt \<and> loads pt = Some pj) \<and> (\<exists>rt. fs r = Some rt \<and> loads rt = None) \<longrightarrow>
         from_files loads fs p r t = Inl JSONDecodeError)"
  by (auto simp: from_files_def read_text_def json_loads_def path_exists_def err_bind_def
      split: option.splits sum.splits)

theorem from_files_optional_test_results_witness:
  "example_files [''test_results.json''] = None
   \<and> from_files example_loads example_files [''path.json''] [''report.json'']
         [''test_results.json'']
       = Inr \<lparr>run_path = JObj [], run_report = JObj [], run_test_results = JObj []\<rparr>
   \<and> from_files example_loads example_files [''missing.json''] [''report.json'']
         [''test_results.json'']
       = Inl FileNotFoundError"
  using from_files_optional_test_results
    [of example_files "[''test_results.json'']" example_loads "[''path.json'']"
        "[''report.json'']"
        "\<lparr>run_path = JObj [], run_report = JObj [], run_test_results = JObj []\<rparr>"]
    from_files_optional_test_results
    [of example_files "[''test_results.json'']" example_loads "[''missing.json'']"
        "[''report.json'']"
        "\<lparr>run_path = JObj [], run_report = JObj [], run_test_results = JObj []\<rparr>"]
  by (simp add: example_files_def example_loads_def)

section \<open>The filter\<close>

text \<open>
  Claim C7. The filter applies the whitelist first and the blacklist second; a list that is
  absent or empty filters nothing. It keeps, in their order, the groups whose name is in
  a non-empty whitelist and not in a non-empty blacklist, so the whitelist A, B with the
  blacklist B (A and B different) leaves the mapping restricted to A. A name that the
  mapping does not have matches nothing and raises nothing: it can be dropped from a
  blacklist, and from a whitelist that has another name, without changing the result.
\<close>

theorem filter_whitelist_then_blacklist:
  "filter_grouped_generators g wl bl = apply_blacklist (apply_whitelist g wl) bl
   \<and> filter_grouped_generators g wl bl =
       filter (\<lambda>(n, gens).
          ((case wl of None \<Rightarrow> [] | Some l \<Rightarrow> l) = [] \<or> n \<in> set (case wl of None \<Rightarrow> [] | Some l \<Rightarrow> l))
          \<and> ((case bl of None \<Rightarrow> [] | Some l \<Rightarrow> l) = [] \<or> n \<notin> set (case bl of None \<Rightarrow> [] | Some l \<Rightarrow> l)))
        g
   \<and> (A \<noteq> B \<longrightarrow>
        filter_grouped_generators g (Some [A, B]) (Some [B]) = filter (\<lambda>(n, gens). n = A) g)
   \<and> (x \<notin> fst ` set g \<and> wl' \<noteq> [] \<longrightarrow>
        filter_grouped_generators g (Some (x # wl')) bl = filter_grouped_generators g (Some wl') bl)
   \<and> (x \<notin> fst ` set g \<longrightarrow>
        filter_grouped_generators g wl (Some (x # bl')) = filter_grouped_generators g wl (Some bl'))"
proof -
  have absent: "(x, gens) \<notin> set g" if "x \<notin> fst ` set g" for gens
    using that by (metis fst_conv imageI)
  have keep: "filter (\<lambda>(n, gens). n \<noteq> x) g = g" if "x \<notin> fst ` set g"
    using absent [OF that] by (auto simp: filter_id_conv)
  show ?thesis
    by (intro conjI impI)
       (auto simp: filter_grouped_generators_def apply_whitelist_def apply_blacklist_def
          absent keep split: option.splits intro!: filter_cong)
qed

theorem filter_whitelist_then_blacklist_witness:
  "filter_grouped_generators example_grouped (Some [''Random'', ''Weighted'']) (Some [''Weighted''])
     = [(''Random'', [example_generator 50 15, example_generator 100 20])]
   \<and> filter_grouped_generators example_grouped (Some [''Unknown'', ''Random'']) None
     = filter_grouped_generators example_grouped (Some [''Random'']) None
   \<and> filter_grouped_generators example_grouped None (Some [''Unknown''])
     = filter_grouped_generators example_grouped None (Some [])"
  using filter_whitelist_then_blacklist
    [of example_grouped "Some [''Random'', ''Weighted'']" "Some [''Weighted'']"
        "''Random''" "''Weighted''" "''Unknown''" "[''Random'']" "[]"]
    filter_whitelist_then_blacklist
    [of example_grouped None None "''Random''" "''Weighted''" "''Unknown''" "[''Random'']" "[]"]
  by (simp add: example_grouped_def)

section \<open>The report factory\<close>

lemma missing_grouped_generators_not_ValueError [simp]:
  "missing_grouped_generators \<noteq> ValueError m"
  by (simp add: missing_grouped_generators_def)

lemma call_create_plots_one_argument:
  "call_create_plots [a] w =
     (Inl missing_grouped_generators, w)"
  by (simp add: call_create_plots_def)

lemma create_html_report_fails:
  "create_html_report ext b out whitelist blacklist w =
     (Inl missing_grouped_generators, w)"
  by (simp add: create_html_report_def call_create_plots_one_argument)

lemma create_raw_report_cases:
  "create_raw_report ext b out whitelist blacklist w =
     (case create_statistics ext
             (filter_grouped_generators (generators_grouped (report b)) whitelist blacklist) of
        Inl e \<Rightarrow> (Inl e, w)
      | Inr s \<Rightarrow> (Inl missing_grouped_generators, w))"
  by (simp add: create_raw_report_def call_create_plots_one_argument split: sum.splits)

lemma mkdir_cases:
  "mkdir p ok w = (r, w') \<Longrightarrow>
   (r = Inl FileExistsError \<and> w' = w) \<or> (r = Inl NotADirectoryError \<and> w' = w) \<or> r = Inr ()"
  by (auto simp: mkdir_def split: if_splits)

lemma create_pdf_report_cases:
  "fst (create_pdf_report ext b out whitelist blacklist w) \<in>
     {Inl FileExistsError, Inl NotADirectoryError,
      Inl missing_grouped_generators}"
proof (cases "mkdir (out @ [''temp'']) False w")
  case (Pair r w')
  with mkdir_cases [OF Pair] show ?thesis
    by (auto simp: create_pdf_report_def create_html_report_fails)
qed

lemma lower_examples:
  "lower ''xml'' = ''xml''" "lower ''HTML'' = ''html''" "lower ''Pdf'' = ''pdf''"
  "lower ''Raw_Data'' = ''raw_data''"
  by code_simp+

text \<open>
  Claim C1. What the code does in raw-data mode, for every benchmark, output directory,
  filter lists, external collaborators and state: \<^verbatim>\<open>create_raw_report\<close> calls
  \<^verbatim>\<open>create_plots\<close> with the grouped generators as its only argument, the call raises
  before the body of \<^verbatim>\<open>create_plots\<close> runs, and the report ends with an exception (that
  of the statistics builder, when it raises first) in the state it started from: no
  \<^verbatim>\<open>benchmarks.json\<close>, no \<^verbatim>\<open>statistics.json\<close> and no image is written.
\<close>

theorem create_raw_report_fails:
  "\<exists>e. create_raw_report ext b out whitelist blacklist w = (Inl e, w)"
  by (simp add: create_raw_report_cases split: sum.splits)

theorem create_raw_report_fails_witness:
  "create_raw_report example_externals (example_benchmark 2 True) [''out''] None None example_world
     = (Inl (TypeError (''BenchmarkPlotter.create_plots() missing 1 required positional argument: ''
                @ [CHR 0x27] @ ''grouped_generators'' @ [CHR 0x27])),
        example_world)"
  using create_raw_report_fails
    [of example_externals "example_benchmark 2 True" "[''out'']" None None example_world]
  by (simp add: create_raw_report_cases example_externals_def missing_grouped_generators_def)

text \<open>
  Claim C3. When the lower-cased report type is none of \<^verbatim>\<open>html\<close>, \<^verbatim>\<open>pdf\<close> and
  \<^verbatim>\<open>raw_data\<close>, \<^verbatim>\<open>create_report\<close> raises \<^verbatim>\<open>ValueError\<close> with the message
  \<^verbatim>\<open>Unknown report type "..."\<close> that quotes the type as given, and the files, the
  directories and the plotter's attribute are what they were: nothing is written.
\<close>

theorem create_report_unknown:
  "lower (report_type self) \<notin> {''html'', ''pdf'', ''raw_data''} \<Longrightarrow>
   create_report self ext b out whitelist blacklist w =
     (Inl (ValueError (''Unknown report type '' @ [CHR 0x22] @ report_type self @ [CHR 0x22])), w)"
  by (simp add: create_report_def)

theorem create_report_unknown_witness:
  "lower ''xml'' \<notin> {''html'', ''pdf'', ''raw_data''}
   \<and> create_report \<lparr>report_type = ''xml''\<rparr> example_externals (example_benchmark 2 True) [''out'']
       None None example_world
     = (Inl (ValueError (''Unknown report type '' @ [CHR 0x22] @ ''xml'' @ [CHR 0x22])), example_world)"
  using create_report_unknown
    [of "\<lparr>report_type = ''xml''\<rparr>" example_externals "example_benchmark 2 True" "[''out'']"
        None None example_world]
  by (simp add: lower_examples)

text \<open>
  Claim C10. The report type is matched on its lower-cased form: a type whose lower case is
  \<^verbatim>\<open>html\<close>, \<^verbatim>\<open>pdf\<close> or \<^verbatim>\<open>raw_data\<close> makes \<^verbatim>\<open>create_report\<close> behave as the HTML, PDF or
  raw-data report does. When the statistics builder, which these files do not hold, raises
  no \<^verbatim>\<open>ValueError\<close> of its own, \<^verbatim>\<open>create_report\<close> raises \<^verbatim>\<open>ValueError\<close> exactly when
  the lower-cased type is none of the three.
\<close>

theorem create_report_case_insensitive:
  "(lower (report_type self) = ''html'' \<longrightarrow>
      create_report self ext b out whitelist blacklist w
        = create_html_report ext b out whitelist blacklist w)
   \<and> (lower (report_type self) = ''pdf'' \<longrightarrow>
      create_report self ext b out whitelist blacklist w
        = create_pdf_report ext b out whitelist blacklist w)
   \<and> (lower (report_type self) = ''raw_data'' \<longrightarrow>
      create_report self ext b out whitelist blacklist w
        = create_raw_report ext b out whitelist blacklist w)
   \<and> ((\<forall>g m. create_statistics ext g \<noteq> Inl (ValueError m)) \<longrightarrow>
        ((\<exists>m. fst (create_report self ext b out whitelist blacklist w) = Inl (ValueError m))
          \<longleftrightarrow> lower (report_type self) \<notin> {''html'', ''pdf'', ''raw_data''}))"
proof (intro conjI impI)
  assume ext: "\<forall>g m. create_statistics ext g \<noteq> Inl (ValueError m)"
  have raw: "fst (create_raw_report ext b out whitelist blacklist w) \<noteq> Inl (ValueError m)" for m
    using ext by (auto simp: create_raw_report_cases split: sum.splits)
  have pdf: "fst (create_pdf_report ext b out whitelist blacklist w) \<noteq> Inl (ValueError m)" for m
    using create_pdf_report_cases [of ext b out whitelist blacklist w] by auto
  show "(\<exists>m. fst (create_report self ext b out whitelist blacklist w) = Inl (ValueError m))
          \<longleftrightarrow> lower (report_type self) \<notin> {''html'', ''pdf'', ''raw_data''}"
    using raw pdf by (auto simp: create_report_def create_html_report_fails)
qed (simp_all add: create_report_def)

theorem create_report_case_insensitive_witness:
  "lower ''HTML'' = ''html'' \<and> lower ''Pdf'' = ''pdf'' \<and> lower ''Raw_Data'' = ''raw_data''
   \<and> create_report \<lparr>report_type = ''HTML''\<rparr> example_externals (example_benchmark 2 True) [''out'']
       None None example_world
     = create_html_report example_externals (example_benchmark 2 True) [''out''] None None example_world
   \<and> create_report \<lparr>report_type = ''Pdf''\<rparr> example_externals (example_benchmark 2 True) [''out'']
       None None example_world
     = create_pdf_report example_externals (example_benchmark 2 True) [''out''] None None example_world
   \<and> create_report \<lparr>report_type = ''Raw_Data''\<rparr> example_externals (example_benchmark 2 True) [''out'']
       None None example_world
     = create_raw_report example_externals (example_benchmark 2 True) [''out''] None None example_world
   \<and> (\<exists>m. fst (create_report \<lparr>report_type = ''xml''\<rparr> example_externals (example_benchmark 2 True)
         [''out''] None None example_world) = Inl (ValueError m))"
  using create_report_case_insensitive
    [of "\<lparr>report_type = ''HTML''\<rparr>" example_externals "example_benchmark 2 True" "[''out'']"
        None None example_world]
    create_report_case_insensitive
    [of "\<lparr>report_type = ''Pdf''\<rparr>" example_externals "example_benchmark 2 True" "[''out'']"
        None None example_world]
    create_report_case_insensitive
    [of "\<lparr>report_type = ''Raw_Data''\<rparr>" example_externals "example_benchmark 2 True" "[''out'']"
        None None example_world]
    create_report_case_insensitive
    [of "\<lparr>report_type = ''xml''\<rparr>" example_externals "example_benchmark 2 True" "[''out'']"
        None None example_world]
  by (simp add: lower_examples example_externals_def)


section \<open>The bar charts\<close>

lemma new_chart_simps [simp]:
  "new_chart t x y (Inl e) = Inl e"
  "new_chart t x y (Inr cs) = Inr \<lparr>title = t, xlabel = x, ylabel = y, drawn = cs\<rparr>"
  by (simp_all add: new_chart_def)

lemma map_err_Inr [simp]: "map_err (\<lambda>x. Inr (h x)) xs = Inr (map h xs)"
  by (induction xs) simp_all

lemma map_err_truediv:
  "map_err (\<lambda>x. py_truediv (a x) (b x)) xs =
     (if \<exists>x\<in>set xs. b x = 0 then Inl ZeroDivisionError else Inr (map (\<lambda>x. a x / b x) xs))"
  by (induction xs) (auto simp: py_truediv_def)

lemma map_err_size_over_time:
  "map_err size_over_time xs =
     (if \<exists>x\<in>set xs. average_generation_time x = 0 then Inl ZeroDivisionError
      else Inr (map (\<lambda>x. average_test_suite_size x / average_generation_time x) xs))"
  unfolding size_over_time_def [abs_def] by (rule map_err_truediv)

lemma trend_line_simps [simp]:
  "trend_line [] ys d = Inl (TypeError ''expected non-empty vector for x'')"
  "xs \<noteq> [] \<Longrightarrow> trend_line xs ys d = Inr (TrendLine xs ys d)"
  by (simp_all add: trend_line_def)

lemma bars_loop_Cons [simp]:
  "bars_loop w cov vl atl i ((n, gens) # rest) =
     err_bind (map_err vl gens) (\<lambda>ys.
     err_bind (if atl
               then err_bind (trend_line (map (\<lambda>g. of_int (cov g) + of_nat i * w) gens) ys 3)
                      (\<lambda>t. Inr [t])
               else Inr []) (\<lambda>trend.
     err_bind (bars_loop w cov vl atl (Suc i) rest) (\<lambda>cmds.
     Inr (Bar (map (\<lambda>g. of_int (cov g) + of_nat i * w) gens) ys n w # trend @ cmds))))"
  by (simp add: Let_def)

declare bars_loop.simps(2) [simp del]

lemma bars_loop_heights:
  "\<forall>(n, gens)\<in>set grouped. map_err vl gens = Inr (map h gens) \<and> (atl \<longrightarrow> gens \<noteq> []) \<Longrightarrow>
   \<exists>cmds. bars_loop w cov vl atl i grouped = Inr cmds
      \<and> bar_heights cmds = map (\<lambda>(n, gens). map h gens) grouped"
proof (induction grouped arbitrary: i)
  case Nil
  then show ?case by simp
next
  case (Cons p grouped)
  obtain n gens where p: "p = (n, gens)" by (cases p)
  from Cons.prems
  have "\<forall>(n, gens)\<in>set grouped. map_err vl gens = Inr (map h gens) \<and> (atl \<longrightarrow> gens \<noteq> [])"
    by simp
  from Cons.IH [OF this, of "Suc i"] obtain cmds where
    "bars_loop w cov vl atl (Suc i) grouped = Inr cmds"
    "bar_heights cmds = map (\<lambda>(n, gens). map h gens) grouped"
    by blast
  moreover from Cons.prems p have "map_err vl gens = Inr (map h gens)" "atl \<longrightarrow> gens \<noteq> []"
    by simp_all
  ultimately show ?case using p by (cases atl) simp_all
qed

lemma bars_loop_zero_division:
  "\<forall>(n, gens)\<in>set grouped. gens \<noteq> [] \<Longrightarrow>
   \<exists>(n, gens)\<in>set grouped. \<exists>x\<in>set gens. average_generation_time x = 0 \<Longrightarrow>
   bars_loop w cov size_over_time atl i grouped = Inl ZeroDivisionError"
proof (induction grouped arbitrary: i)
  case Nil
  then show ?case by simp
next
  case (Cons p grouped)
  obtain n gens where p: "p = (n, gens)" by (cases p)
  from Cons.prems(1) p have ne: "gens \<noteq> []" by simp
  from Cons.prems(1) have rest: "\<forall>(n, gens)\<in>set grouped. gens \<noteq> []" by simp
  show ?case
  proof (cases "\<exists>x\<in>set gens. average_generation_time x = 0")
    case True
    then show ?thesis using p by (simp add: map_err_size_over_time)
  next
    case False
    with Cons.prems(2) p
    have "\<exists>(n, gens)\<in>set grouped. \<exists>x\<in>set gens. average_generation_time x = 0" by auto
    from Cons.IH [OF rest this] False p ne show ?thesis
      by (cases atl) (simp_all add: map_err_size_over_time)
  qed
qed

lemma bar_heights_append_tail [simp]:
  "bar_heights (cmds @ [XTicks ts, YGrid, PostProcess]) = bar_heights cmds"
  by (induction cmds rule: bar_heights.induct) simp_all

lemma trend_lines_append_tail [simp]:
  "trend_lines (cmds @ [XTicks ts, YGrid, PostProcess]) = trend_lines cmds"
  by (induction cmds rule: trend_lines.induct) simp_all

lemma first_group_ticks_Cons [simp]:
  "first_group_ticks ((k, vs) # rest) cov = Inr (XTicks (map cov vs))"
  by (simp add: first_group_ticks_def)

lemma first_group_ticks_eq_Inr:
  "first_group_ticks d cov = Inr t \<Longrightarrow> \<exists>ts. t = XTicks ts"
  by (auto simp: first_group_ticks_def split: list.splits)

lemma bars_loop_trend_lines:
  "bars_loop w cov vl True i grouped = Inr cmds \<Longrightarrow>
   list_all2 (\<lambda>(xs, ys, d) (j, n, gens).
       xs = map (\<lambda>g. of_int (cov g) + of_nat j * w) gens \<and> map_err vl gens = Inr ys \<and> d = 3)
     (trend_lines cmds) (enumerate i grouped)"
proof (induction grouped arbitrary: i cmds)
  case Nil
  then show ?case by simp
next
  case (Cons p grouped)
  obtain n gens where p: "p = (n, gens)" by (cases p)
  from Cons.prems p obtain ys rest where
    ys: "map_err vl gens = Inr ys" and
    rest: "bars_loop w cov vl True (Suc i) grouped = Inr rest" and
    cmds: "cmds = Bar (map (\<lambda>g. of_int (cov g) + of_nat i * w) gens) ys n w
             # TrendLine (map (\<lambda>g. of_int (cov g) + of_nat i * w) gens) ys 3 # rest"
    by (auto simp: err_bind_eq_Inr trend_line_def split: if_splits)
  from Cons.IH [OF rest] ys show ?case
    by (simp add: cmds p)
qed

lemma plot_bars_example:
  "plot_bars example_grouped (\<lambda>g. Inr (total_generation_time g)) True =
     Inr [Bar [50, 100] [30, 40] ''Random'' 3, TrendLine [50, 100] [30, 40] 3,
          Bar [53, 103] [20, 60] ''Weighted'' 3, TrendLine [53, 103] [20, 60] 3,
          XTicks [50, 100], YGrid, PostProcess]"
  by (simp add: plot_bars_def py_truediv_def example_grouped_def example_generator_def)

text \<open>
  A series without a generator: the fit of its trend line raises \<^verbatim>\<open>TypeError\<close>, also
  before the value lambda divides by zero in a later series.
\<close>

lemma size_over_time_empty_series:
  "plot_average_size_divided_by_average_time [(''Random'', [])]
     = Inl (TypeError ''expected non-empty vector for x'')"
  "plot_average_size_divided_by_average_time [(''A'', []), (''B'', [example_generator 50 0])]
     = Inl (TypeError ''expected non-empty vector for x'')"
  by (simp_all add: plot_average_size_divided_by_average_time_def plot_bars_def py_truediv_def)

text \<open>
  Claim C8. The value of the Size over Time chart for a generator is its average test-suite
  size divided by its average generation time, with no guard: when the average generation
  time is not zero the value is that quotient, and when it is zero the value lambda raises
  \<^verbatim>\<open>ZeroDivisionError\<close>. For the chart: when there is a series, every series has a
  generator and no average generation time is zero, the chart is drawn and its bars have
  these quotients as heights, series by series; when every series has a generator and some
  average generation time is zero, the chart function raises \<^verbatim>\<open>ZeroDivisionError\<close>.
  (A series without a generator makes the fit of its trend line raise \<^verbatim>\<open>TypeError\<close>.)
\<close>

theorem size_over_time_division:
  "(average_generation_time generator \<noteq> 0 \<longrightarrow>
      size_over_time generator =
        Inr (average_test_suite_size generator / average_generation_time generator))
   \<and> (average_generation_time generator = 0 \<longrightarrow> size_over_time generator = Inl ZeroDivisionError)
   \<and> (grouped \<noteq> []
       \<and> (\<forall>(n, gens)\<in>set grouped. gens \<noteq> [] \<and> (\<forall>g\<in>set gens. average_generation_time g \<noteq> 0)) \<longrightarrow>
      (\<exists>c. plot_average_size_divided_by_average_time grouped = Inr c
         \<and> bar_heights (drawn c) =
             map (\<lambda>(n, gens). map (\<lambda>g. average_test_suite_size g / average_generation_time g) gens)
               grouped))
   \<and> ((\<forall>(n, gens)\<in>set grouped. gens \<noteq> [])
       \<and> (\<exists>(n, gens)\<in>set grouped. \<exists>g\<in>set gens. average_generation_time g = 0) \<longrightarrow>
        plot_average_size_divided_by_average_time grouped = Inl ZeroDivisionError)"
proof (intro conjI impI)
  assume ok: "grouped \<noteq> []
       \<and> (\<forall>(n, gens)\<in>set grouped. gens \<noteq> [] \<and> (\<forall>g\<in>set gens. average_generation_time g \<noteq> 0))"
  then obtain p rest where g: "grouped = p # rest" by (cases grouped) auto
  obtain k vs where p: "p = (k, vs)" by (cases p)
  let ?h = "\<lambda>g. average_test_suite_size g / average_generation_time g"
  from ok have "\<forall>(n, gens)\<in>set grouped.
      map_err size_over_time gens = Inr (map ?h gens) \<and> (True \<longrightarrow> gens \<noteq> [])"
    by (auto simp: map_err_size_over_time)
  from bars_loop_heights [OF this]
  obtain cmds where
    "bars_loop (6 / of_nat (length grouped)) stop_coverage size_over_time True 0 grouped = Inr cmds"
    "bar_heights cmds = map (\<lambda>(n, gens). map ?h gens) grouped"
    by blast
  then show "\<exists>c. plot_average_size_divided_by_average_time grouped = Inr c
         \<and> bar_heights (drawn c) = map (\<lambda>(n, gens). map ?h gens) grouped"
    using g p
    by (simp add: plot_average_size_divided_by_average_time_def plot_bars_def py_truediv_def)
next
  assume z: "(\<forall>(n, gens)\<in>set grouped. gens \<noteq> [])
       \<and> (\<exists>(n, gens)\<in>set grouped. \<exists>g\<in>set gens. average_generation_time g = 0)"
  then have "grouped \<noteq> []" by auto
  with bars_loop_zero_division [OF conjunct1 [OF z] conjunct2 [OF z]]
  show "plot_average_size_divided_by_average_time grouped = Inl ZeroDivisionError"
    by (simp add: plot_average_size_divided_by_average_time_def plot_bars_def py_truediv_def)
qed (simp_all add: size_over_time_def py_truediv_def)

theorem size_over_time_division_witness:
  "size_over_time (example_generator 50 15) = Inr (4 / 15)
   \<and> size_over_time (example_generator 50 0) = Inl ZeroDivisionError
   \<and> (\<exists>c. plot_average_size_divided_by_average_time example_grouped = Inr c
      \<and> bar_heights (drawn c) = [[4 / 15, 4 / 20], [4 / 10, 4 / 30]])
   \<and> plot_average_size_divided_by_average_time [(''Random'', [example_generator 50 0])]
       = Inl ZeroDivisionError"
  using size_over_time_division [of "example_generator 50 15" example_grouped]
    size_over_time_division [of "example_generator 50 0" "[(''Random'', [example_generator 50 0])]"]
  by (simp add: example_grouped_def example_generator_def)

text \<open>
  Claim C6, as amended. A bar chart with trend lines has one trend line per series, in the
  order of the series, each of degree 3. The trend line of the series at index \<open>j\<close> is
  fitted over the x positions of the bars of that series, the stop coverage plus \<open>j\<close>
  times the bar width \<open>6 / (number of series)\<close>, paired with the series' own values. For
  the first series these x positions are the stop coverages themselves.
\<close>

theorem trend_line_fit:
  "plot_bars grouped vl True = Inr cmds \<Longrightarrow>
   list_all2 (\<lambda>(xs, ys, d) (j, n, gens).
       xs = map (\<lambda>g. of_int (stop_coverage g) + of_nat j * (6 / of_nat (length grouped))) gens
       \<and> map_err vl gens = Inr ys \<and> d = 3)
     (trend_lines cmds) (enumerate 0 grouped)"
proof -
  assume a: "plot_bars grouped vl True = Inr cmds"
  then obtain bars t where
    bars: "bars_loop (6 / of_nat (length grouped)) stop_coverage vl True 0 grouped = Inr bars" and
    t: "first_group_ticks grouped stop_coverage = Inr t" and
    cmds: "cmds = bars @ [t, YGrid, PostProcess]"
    by (auto simp: plot_bars_def py_truediv_def err_bind_eq_Inr split: if_splits)
  from first_group_ticks_eq_Inr [OF t] obtain ts where "t = XTicks ts" by blast
  with bars_loop_trend_lines [OF bars] cmds show ?thesis by simp
qed

theorem trend_line_fit_witness:
  "list_all2 (\<lambda>(xs, ys, d) (j, n, gens).
       xs = map (\<lambda>g. of_int (stop_coverage g) + of_nat j * (6 / of_nat (length example_grouped)) :: rat) gens
       \<and> map_err (\<lambda>g. Inr (total_generation_time g)) gens = Inr ys \<and> d = 3)
     [([50, 100], [30, 40], 3 :: nat), ([53, 103], [20, 60], 3)] (enumerate 0 example_grouped)"
  using trend_line_fit [OF plot_bars_example] by simp

text \<open>
  The claim as it was stated, a fit over the stop coverages of each series, fails at the
  second series of the example: its trend line is fitted over 53 and 103, not 50 and 100.
\<close>

theorem trend_line_raw_coverage_counterexample:
  "\<not> (\<forall>grouped vl cmds. plot_bars grouped vl True = Inr cmds \<longrightarrow>
        list_all2 (\<lambda>(xs, ys, d) (n, gens).
            xs = map (\<lambda>g. of_int (stop_coverage g)) gens \<and> map_err vl gens = Inr ys \<and> d = 3)
          (trend_lines cmds) grouped)"
proof
  assume "\<forall>grouped vl cmds. plot_bars grouped vl True = Inr cmds \<longrightarrow>
        list_all2 (\<lambda>(xs, ys, d) (n, gens).
            xs = map (\<lambda>g. of_int (stop_coverage g)) gens \<and> map_err vl gens = Inr ys \<and> d = 3)
          (trend_lines cmds) grouped"
  from this [rule_format, OF plot_bars_example] show False
    by (simp add: example_grouped_def example_generator_def)
qed


section \<open>The chart functions and the class attribute\<close>

lemma vertex_percentage_example:
  "plot_average_vertex_percentage_total_visits (Some (example_benchmark v ok)) example_grouped =
     (if v = 0 then Inl ZeroDivisionError
      else Inr \<lparr>title = ''Percentage of unique vertices visited\<newline>in an average traversal'',
             xlabel = ''Coverage (%)'', ylabel = ''Average Percentage (%)'',
             drawn = [Bar [50, 100] [2 / of_int v * 100, 2 / of_int v * 100] ''Random'' 3,
                      TrendLine [50, 100] [2 / of_int v * 100, 2 / of_int v * 100] 3,
                      Bar [53, 103] [2 / of_int v * 100, 2 / of_int v * 100] ''Weighted'' 3,
                      TrendLine [53, 103] [2 / of_int v * 100, 2 / of_int v * 100] 3,
                      XTicks [50, 100], YGrid, PostProcess]\<rparr>)"
  by (simp add: plot_average_vertex_percentage_total_visits_def plot_bars_def py_truediv_def
      example_grouped_def example_generator_def example_benchmark_def)

text \<open>
  Claim C2, as amended. The result of a chart function is determined by its explicit
  arguments, whatever the class attribute \<^verbatim>\<open>BenchmarkPlotter.benchmark\<close> holds, for every
  function of the three registries but the two coverage-percentage plots (Average Vertex
  Visits %, Average Edge Visits %). The result of these two is determined by the grouped
  generators and the number of vertices (of edges) of the model of the benchmark that the
  attribute holds. \<^verbatim>\<open>create_plots\<close> assigns its benchmark argument to the attribute
  before it draws, so its own result does not depend on what the attribute held.
\<close>

theorem chart_functions_state:
  "((n, f) \<in> set get_plot_functions
      \<and> n \<noteq> ''Average Vertex Visits %'' \<and> n \<noteq> ''Average Edge Visits %'' \<longrightarrow>
        f pb grouped = f pb' grouped)
   \<and> ((n, ft) \<in> set get_test_execution_plot_functions \<longrightarrow> ft pb b grouped = ft pb' b grouped)
   \<and> ((n, fc) \<in> set get_per_coverage_plot_functions \<longrightarrow> fc pb grouped c = fc pb' grouped c)
   \<and> (vertices (model (report b1)) = vertices (model (report b2)) \<longrightarrow>
        plot_average_vertex_percentage_total_visits (Some b1) grouped
          = plot_average_vertex_percentage_total_visits (Some b2) grouped)
   \<and> (edges (model (report b1)) = edges (model (report b2)) \<longrightarrow>
        plot_average_edge_percentage_total_visits (Some b1) grouped
          = plot_average_edge_percentage_total_visits (Some b2) grouped)
   \<and> snd (create_plots pb b grouped s) = Some b
   \<and> fst (create_plots pb b grouped s) = fst (create_plots pb' b grouped s)"
proof (intro conjI impI)
  show "snd (create_plots pb b grouped s) = Some b"
    by (simp add: create_plots_def Let_def)
  show "fst (create_plots pb b grouped s) = fst (create_plots pb' b grouped s)"
    by (simp add: create_plots_def Let_def)
qed (auto simp: get_plot_functions_def get_test_execution_plot_functions_def
      get_per_coverage_plot_functions_def
      plot_average_vertex_percentage_total_visits_def
      plot_average_edge_percentage_total_visits_def)

theorem chart_functions_state_witness:
  "(''Total Time'', \<lambda>plotter_benchmark. plot_total_time) \<in> set get_plot_functions
   \<and> vertices (model (report (example_benchmark 2 True)))
       = vertices (model (report (example_benchmark 2 False)))
   \<and> plot_average_vertex_percentage_total_visits (Some (example_benchmark 2 True)) example_grouped
     = plot_average_vertex_percentage_total_visits (Some (example_benchmark 2 False)) example_grouped
   \<and> snd (create_plots None (example_benchmark 2 True) example_grouped False)
       = Some (example_benchmark 2 True)"
  using chart_functions_state
    [of "''Total Time''" "\<lambda>plotter_benchmark. plot_total_time" None example_grouped
        "Some (example_benchmark 2 True)" "\<lambda>plotter_benchmark. plot_average_test_execution_time"
        "example_benchmark 2 True" "\<lambda>plotter_benchmark. plot_histogram_total_visited_vertices"
        50 "example_benchmark 2 True" "example_benchmark 2 False" False]
  by (simp add: example_benchmark_def get_plot_functions_def)

text \<open>
  The claim as it was stated, that every chart function is a function of its explicit
  arguments alone, fails for the vertex-percentage plot: on the same grouped generators
  it draws bars of height 100 when the attribute holds a benchmark whose model has two
  vertices, and of height 50 when the model has four.
\<close>

theorem chart_functions_state_counterexample:
  "\<not> (\<forall>f plotter_benchmark plotter_benchmark' grouped.
        f \<in> snd ` set get_plot_functions \<longrightarrow>
        f plotter_benchmark grouped = f plotter_benchmark' grouped)"
proof
  assume a: "\<forall>f plotter_benchmark plotter_benchmark' grouped.
        f \<in> snd ` set get_plot_functions \<longrightarrow>
        f plotter_benchmark grouped = f plotter_benchmark' grouped"
  have "plot_average_vertex_percentage_total_visits \<in> snd ` set get_plot_functions"
    by (simp add: get_plot_functions_def)
  from a [rule_format, OF this, of "Some (example_benchmark 2 True)" example_grouped
      "Some (example_benchmark 4 True)"]
  show False
    by (simp add: vertex_percentage_example)
qed


section \<open>The plot dictionary\<close>

subsection \<open>Decimal strings and keys\<close>

declare digits.simps [simp del]

lemma digits_value_digits: "digits_value (digits n) = n"
proof (induction n rule: digits.induct)
  case (1 n)
  show ?case
  proof (cases "n < 10")
    case True
    then show ?thesis
      by (subst digits.simps) (simp add: digits_value_def)
  next
    case False
    with 1 have "digits_value (digits (n div 10)) = n div 10" by simp
    moreover have "of_char (char_of (48 + n mod 10)) = 48 + n mod 10"
      by simp
    ultimately show ?thesis using False
      by (subst digits.simps) (simp add: digits_value_def)
  qed
qed

lemma digits_inj: "digits n = digits m \<Longrightarrow> n = m"
  by (metis digits_value_digits)

lemma digits_not_minus: "CHR ''-'' \<notin> set (digits n)"
proof (induction n rule: digits.induct)
  case (1 n)
  have d: "char_of (48 + k) \<noteq> CHR ''-''" if "k < 10" for k :: nat
  proof
    assume "char_of (48 + k) = CHR ''-''"
    then have "of_char (char_of (48 + k)) = (of_char CHR ''-'' :: nat)" by simp
    with that show False by simp
  qed
  show ?case
  proof (cases "n < 10")
    case True
    then show ?thesis by (subst digits.simps) (simp add: d [THEN not_sym])
  next
    case False
    with 1 have "CHR ''-'' \<notin> set (digits (n div 10))" by simp
    then show ?thesis using False by (subst digits.simps) (simp add: d [THEN not_sym])
  qed
qed

lemma digits_nonempty: "digits n \<noteq> []"
  by (subst digits.simps) simp

lemma str_int_inj: "str_int i = str_int j \<Longrightarrow> i = j"
proof -
  assume a: "str_int i = str_int j"
  have neg: "digits n \<noteq> CHR ''-'' # xs" "CHR ''-'' # xs \<noteq> digits n" for n xs
    using digits_not_minus [of n] by (metis list.set_intros(1))+
  show ?thesis
  proof (cases "i < 0")
    case i: True
    show ?thesis
    proof (cases "j < 0")
      case True
      with i a have "digits (nat (- i)) = digits (nat (- j))" by (simp add: str_int_def)
      from digits_inj [OF this] i True show ?thesis by simp
    next
      case False
      with i a show ?thesis by (auto simp: str_int_def neg)
    qed
  next
    case i: False
    show ?thesis
    proof (cases "j < 0")
      case True
      with i a show ?thesis by (auto simp: str_int_def neg)
    next
      case False
      with i a have "digits (nat i) = digits (nat j)" by (simp add: str_int_def)
      from digits_inj [OF this] i False show ?thesis by simp
    qed
  qed
qed

lemma plot_key_inj: "plot_key n c = plot_key n c' \<Longrightarrow> c = c'"
  by (simp add: plot_key_def str_int_inj)

subsection \<open>The loops of \<^verbatim>\<open>create_plots\<close>\<close>

lemma update_fresh: "k \<notin> fst ` set ps \<Longrightarrow> AList.update k v ps = ps @ [(k, v)]"
  by (induction ps) auto

lemma plot_loop_Inr:
  "plot_loop run fns plots = Inr plots' \<Longrightarrow> distinct (map fst fns) \<Longrightarrow>
   \<forall>n\<in>fst ` set fns. n \<notin> fst ` set plots \<Longrightarrow>
   plots' = plots @ map (\<lambda>(n, f). (n, projr (run f))) fns"
proof (induction fns arbitrary: plots)
  case Nil
  then show ?case by simp
next
  case (Cons p fns)
  obtain n f where p: "p = (n, f)" by (cases p)
  from Cons.prems(1) p obtain fig where
    fig: "run f = Inr fig" and
    rest: "plot_loop run fns (AList.update n fig plots) = Inr plots'"
    by (auto simp: err_bind_eq_Inr)
  from Cons.prems(3) p have "n \<notin> fst ` set plots" by simp
  then have upd: "AList.update n fig plots = plots @ [(n, fig)]" by (rule update_fresh)
  have "plots' = (plots @ [(n, fig)]) @ map (\<lambda>(n, f). (n, projr (run f))) fns"
  proof (rule Cons.IH)
    show "plot_loop run fns (plots @ [(n, fig)]) = Inr plots'" using rest upd by simp
    show "distinct (map fst fns)" using Cons.prems(2) by simp
    show "\<forall>n'\<in>fst ` set fns. n' \<notin> fst ` set (plots @ [(n, fig)])"
      using Cons.prems(2,3) p by auto
  qed
  then show ?case using p fig by simp
qed

lemma coverage_loop_Inr:
  "coverage_loop f n cvs plots = Inr plots' \<Longrightarrow> distinct cvs \<Longrightarrow>
   \<forall>c\<in>set cvs. plot_key n c \<notin> fst ` set plots \<Longrightarrow>
   plots' = plots @ map (\<lambda>c. (plot_key n c, projr (f c))) cvs"
proof (induction cvs arbitrary: plots)
  case Nil
  then show ?case by simp
next
  case (Cons c cvs)
  let ?k = "plot_key n c"
  from Cons.prems(1) obtain fig where
    fig: "f c = Inr fig" and
    rest: "coverage_loop f n cvs (AList.update ?k fig plots) = Inr plots'"
    by (auto simp: err_bind_eq_Inr)
  from Cons.prems(3) have "?k \<notin> fst ` set plots" by simp
  then have upd: "AList.update ?k fig plots = plots @ [(?k, fig)]" by (rule update_fresh)
  have "plots' = (plots @ [(?k, fig)])
          @ map (\<lambda>c. (plot_key n c, projr (f c))) cvs"
  proof (rule Cons.IH)
    show "coverage_loop f n cvs (plots @ [(?k, fig)]) = Inr plots'" using rest upd by simp
    show "distinct cvs" using Cons.prems(2) by simp
    show "\<forall>c'\<in>set cvs. plot_key n c' \<notin> fst ` set (plots @ [(?k, fig)])"
      using Cons.prems(2,3) by (auto dest: plot_key_inj)
  qed
  then show ?case using fig by simp
qed

lemma per_coverage_loop_Inr:
  "per_coverage_loop fns cvs plots = Inr plots' \<Longrightarrow> distinct cvs \<Longrightarrow> distinct (map fst fns) \<Longrightarrow>
   \<forall>n\<in>fst ` set fns. \<forall>n'\<in>fst ` set fns. \<forall>c c'.
      plot_key n c = plot_key n' c' \<longrightarrow> n = n' \<Longrightarrow>
   \<forall>n\<in>fst ` set fns. \<forall>c\<in>set cvs. plot_key n c \<notin> fst ` set plots \<Longrightarrow>
   plots' = plots @ concat (map (\<lambda>(n, f).
              map (\<lambda>c. (plot_key n c, projr (f c))) cvs) fns)"
proof (induction fns arbitrary: plots)
  case Nil
  then show ?case by simp
next
  case (Cons p fns)
  obtain n f where p: "p = (n, f)" by (cases p)
  let ?new = "map (\<lambda>c. (plot_key n c, projr (f c))) cvs"
  from Cons.prems(1) p obtain mid where
    mid: "coverage_loop f n cvs plots = Inr mid" and
    rest: "per_coverage_loop fns cvs mid = Inr plots'"
    by (auto simp: err_bind_eq_Inr)
  have "n \<in> fst ` set (p # fns)" using p by simp
  with Cons.prems(5) have "\<forall>c\<in>set cvs. plot_key n c \<notin> fst ` set plots"
    by blast
  from coverage_loop_Inr [OF mid Cons.prems(2) this] have mid_eq: "mid = plots @ ?new" .
  have n_fresh: "n \<notin> fst ` set fns" using Cons.prems(3) p by simp
  have "plots' = mid @ concat (map (\<lambda>(n, f).
              map (\<lambda>c. (plot_key n c, projr (f c))) cvs) fns)"
  proof (rule Cons.IH [OF rest Cons.prems(2)])
    show "distinct (map fst fns)" using Cons.prems(3) by simp
    have "fst ` set fns \<subseteq> fst ` set (p # fns)" by auto
    with Cons.prems(4) show "\<forall>n\<in>fst ` set fns. \<forall>n'\<in>fst ` set fns. \<forall>c c'.
      plot_key n c = plot_key n' c' \<longrightarrow> n = n'"
      by blast
    show "\<forall>n'\<in>fst ` set fns. \<forall>c\<in>set cvs. plot_key n' c \<notin> fst ` set mid"
    proof (intro ballI notI)
      fix n' c assume n': "n' \<in> fst ` set fns" and c: "c \<in> set cvs"
        and k: "plot_key n' c \<in> fst ` set mid"
      have n'_in: "n' \<in> fst ` set (p # fns)" using n' by simp
      have n_in: "n \<in> fst ` set (p # fns)" using p by simp
      from Cons.prems(5) n'_in c have "plot_key n' c \<notin> fst ` set plots"
        by blast
      with k mid_eq obtain c' where "plot_key n' c = plot_key n c'"
        by (auto simp: image_Un image_image)
      with Cons.prems(4) n'_in n_in have "n' = n" by blast
      with n' n_fresh show False by simp
    qed
  qed
  then show ?case using p mid_eq by simp
qed

lemma collect_coverage_inner:
  "distinct acc \<Longrightarrow>
   distinct (fold (\<lambda>generator coverage_values.
                     if stop_coverage generator \<notin> set coverage_values
                     then coverage_values @ [stop_coverage generator]
                     else coverage_values) gens acc)
   \<and> set (fold (\<lambda>generator coverage_values.
                     if stop_coverage generator \<notin> set coverage_values
                     then coverage_values @ [stop_coverage generator]
                     else coverage_values) gens acc) = set acc \<union> stop_coverage ` set gens"
  by (induction gens arbitrary: acc) auto

lemma collect_coverage_outer:
  "distinct acc \<Longrightarrow>
   distinct (fold (\<lambda>(generator_group, generators) coverage_values.
             fold (\<lambda>generator coverage_values.
                     if stop_coverage generator \<notin> set coverage_values
                     then coverage_values @ [stop_coverage generator]
                     else coverage_values)
                  generators coverage_values) grouped acc)
   \<and> set (fold (\<lambda>(generator_group, generators) coverage_values.
             fold (\<lambda>generator coverage_values.
                     if stop_coverage generator \<notin> set coverage_values
                     then coverage_values @ [stop_coverage generator]
                     else coverage_values)
                  generators coverage_values) grouped acc)
       = set acc \<union> stop_coverage ` (\<Union>(n, gens)\<in>set grouped. set gens)"
proof (induction grouped arbitrary: acc)
  case Nil
  then show ?case by simp
next
  case (Cons p grouped)
  obtain n gens where p: "p = (n, gens)" by (cases p)
  from collect_coverage_inner [OF Cons.prems, of gens] Cons.IH p show ?case
    by (simp add: image_Un Un_assoc)
qed

lemma prepare_coverage_values_eq:
  "prepare_coverage_values grouped =
     sorted_list_of_set (stop_coverage ` (\<Union>(n, gens)\<in>set grouped. set gens))"
proof -
  let ?xs = "fold (\<lambda>(generator_group, generators) coverage_values.
             fold (\<lambda>generator coverage_values.
                     if stop_coverage generator \<notin> set coverage_values
                     then coverage_values @ [stop_coverage generator]
                     else coverage_values)
                  generators coverage_values) grouped []"
  from collect_coverage_outer [of "[]" grouped]
  have d: "distinct ?xs" and s: "set ?xs = stop_coverage ` (\<Union>(n, gens)\<in>set grouped. set gens)"
    by simp_all
  have "sorted_list_of_set (set ?xs) = sort (remdups ?xs)"
    by (rule sorted_list_of_set_sort_remdups)
  with d s show ?thesis
    by (simp add: prepare_coverage_values_def distinct_remdups_id)
qed

lemma prepare_coverage_values_distinct: "distinct (prepare_coverage_values grouped)"
  by (simp add: prepare_coverage_values_eq)

lemma general_names:
  "map fst get_plot_functions =
     [''Total Time'', ''Total Size'', ''Average Time'', ''Average Size'', ''Minimum Time'',
      ''Maximum Time'', ''Minimum Size'', ''Maximum Size'', ''Max-Min Size'', ''Max-Min Time'',
      ''Coverage vs Time'', ''Size over Time'', ''Average Vertex Visits %'',
      ''Average Edge Visits %'', ''Average vs Minimum Time'', ''Average vs Minimum Size'']"
  by (simp add: get_plot_functions_def)

lemma test_names:
  "map fst get_test_execution_plot_functions =
     [''Average Test Execution Time'', ''Minimum Test Execution Time'',
      ''Maximum Test Execution Time'']"
  by (simp add: get_test_execution_plot_functions_def)

lemma histogram_names:
  "map fst get_per_coverage_plot_functions =
     [''Histogram Total Visited Vertices'', ''Histogram Total Visited Edges'',
      ''Histogram Average Visited Vertices'', ''Histogram Average Visited Edges'']"
  by (simp add: get_per_coverage_plot_functions_def)

lemma map_fst_applied: "map fst (map (\<lambda>(n, f). (n, h f)) fns) = map fst fns"
  by (induction fns) auto

lemma map_fst_keyed: "map fst (map (\<lambda>c. (k c, v c)) cvs) = map k cvs"
  by (induction cvs) auto

lemma histogram_keys_disjoint:
  "\<forall>n\<in>set (map fst get_per_coverage_plot_functions).
   \<forall>n'\<in>set (map fst get_per_coverage_plot_functions).
   \<forall>c c'. plot_key n c = plot_key n' c' \<longrightarrow> n = n'"
  unfolding histogram_names by (simp add: plot_key_def)

lemma histogram_keys_fresh:
  "n \<in> set (map fst get_per_coverage_plot_functions) \<Longrightarrow>
   plot_key n c \<notin> set (map fst get_plot_functions)
   \<and> plot_key n c \<notin> set (map fst get_test_execution_plot_functions)"
  unfolding histogram_names general_names test_names by (auto simp: plot_key_def)

lemma test_names_fresh:
  "n \<in> set (map fst get_test_execution_plot_functions) \<Longrightarrow>
   n \<notin> set (map fst get_plot_functions)"
  unfolding general_names test_names by auto


subsection \<open>What \<^verbatim>\<open>create_plots\<close> returns\<close>

lemma create_plots_split:
  assumes "fst (create_plots pb b g s) = Inr plots"
  shows "\<exists>p1 p2.
    plot_loop (\<lambda>plot_function. plot_function (Some b) g) get_plot_functions [] = Inr p1 \<and>
    (if list_all successful_runs (run_groups b)
          then plot_loop (\<lambda>plot_function. plot_function (Some b) b g)
                 get_test_execution_plot_functions p1
          else Inr p1) = Inr p2 \<and>
    per_coverage_loop (map (\<lambda>(plot_function_name, plot_function).
                    (plot_function_name, plot_function (Some b) g))
               get_per_coverage_plot_functions) (prepare_coverage_values g) p2 = Inr plots"
  using assms unfolding create_plots_def Let_def fst_conv err_bind_eq_Inr by blast


lemma distinct_names:
  "distinct (map fst get_plot_functions)"
  "distinct (map fst get_test_execution_plot_functions)"
  "distinct (map fst get_per_coverage_plot_functions)"
  unfolding general_names test_names histogram_names by simp_all

lemma general_Inr:
  assumes "plot_loop run get_plot_functions [] = Inr p1"
  shows "p1 = map (\<lambda>(n, f). (n, projr (run f))) get_plot_functions"
  using plot_loop_Inr [OF assms distinct_names(1)] by simp

lemma keys_applied: "fst ` set (map (\<lambda>(n, f). (n, h f)) fns) = set (map fst fns)"
proof -
  have "fst ` set (map (\<lambda>(n, f). (n, h f)) fns) = set (map fst (map (\<lambda>(n, f). (n, h f)) fns))"
    by (simp only: set_map)
  then show ?thesis by (simp only: map_fst_applied)
qed

lemma tests_Inr:
  assumes "plot_loop run get_test_execution_plot_functions
             (map (\<lambda>(n, f). (n, h f)) get_plot_functions) = Inr p2"
  shows "p2 = map (\<lambda>(n, f). (n, h f)) get_plot_functions
           @ map (\<lambda>(n, f). (n, projr (run f))) get_test_execution_plot_functions"
proof (rule plot_loop_Inr [OF assms distinct_names(2)])
  show "\<forall>n\<in>fst ` set get_test_execution_plot_functions.
          n \<notin> fst ` set (map (\<lambda>(n, f). (n, h f)) get_plot_functions)"
    unfolding keys_applied
  proof
    fix n assume "n \<in> fst ` set get_test_execution_plot_functions"
    then have "n \<in> set (map fst get_test_execution_plot_functions)" by (simp only: set_map)
    then show "n \<notin> set (map fst get_plot_functions)" by (rule test_names_fresh)
  qed
qed


lemma concat_map_applied:
  "concat (map (\<lambda>(n, f). F n f) (map (\<lambda>(n, f). (n, h f)) fns))
     = concat (map (\<lambda>(n, f). F n (h f)) fns)"
  by (induction fns) auto

lemma histograms_Inr:
  assumes loop: "per_coverage_loop (map (\<lambda>(n, f). (n, h f)) get_per_coverage_plot_functions)
             cvs p2 = Inr plots"
    and cvs: "distinct cvs"
    and keys: "fst ` set p2 \<subseteq> set (map fst get_plot_functions)
                 \<union> set (map fst get_test_execution_plot_functions)"
  shows "plots = p2 @ concat (map (\<lambda>(n, f). map (\<lambda>c. (plot_key n c, projr (h f c))) cvs)
                   get_per_coverage_plot_functions)"
proof -
  let ?hfns = "map (\<lambda>(n, f). (n, h f)) get_per_coverage_plot_functions"
  have hn: "map fst ?hfns = map fst get_per_coverage_plot_functions"
    by (rule map_fst_applied)
  have hs: "fst ` set ?hfns = set (map fst get_per_coverage_plot_functions)"
    by (rule keys_applied)
  have "plots = p2 @ concat (map (\<lambda>(n, f). map (\<lambda>c. (plot_key n c, projr (f c))) cvs) ?hfns)"
  proof (rule per_coverage_loop_Inr [OF loop cvs])
    show "distinct (map fst ?hfns)" unfolding hn by (rule distinct_names(3))
    show "\<forall>n\<in>fst ` set ?hfns. \<forall>n'\<in>fst ` set ?hfns. \<forall>c c'.
            plot_key n c = plot_key n' c' \<longrightarrow> n = n'"
      unfolding hs by (rule histogram_keys_disjoint)
    show "\<forall>n\<in>fst ` set ?hfns. \<forall>c\<in>set cvs. plot_key n c \<notin> fst ` set p2"
      unfolding hs
    proof (intro ballI notI)
      fix n c assume n: "n \<in> set (map fst get_per_coverage_plot_functions)"
        and "plot_key n c \<in> fst ` set p2"
      with keys have "plot_key n c \<in> set (map fst get_plot_functions)
                 \<union> set (map fst get_test_execution_plot_functions)" by (rule_tac subsetD)
      with histogram_keys_fresh [OF n, of c] show False by (simp only: Un_iff) blast
    qed
  qed
  then show ?thesis by (simp only: concat_map_applied)
qed


lemma keys_general_tests:
  "fst ` set (map (\<lambda>(n, f). (n, h f)) get_plot_functions
              @ map (\<lambda>(n, f). (n, k f)) get_test_execution_plot_functions)
     \<subseteq> set (map fst get_plot_functions) \<union> set (map fst get_test_execution_plot_functions)"
  by (simp only: set_append image_Un keys_applied subset_refl)

lemma keys_general:
  "fst ` set (map (\<lambda>(n, f). (n, h f)) get_plot_functions)
     \<subseteq> set (map fst get_plot_functions) \<union> set (map fst get_test_execution_plot_functions)"
  by (simp only: keys_applied Un_upper1)

lemma create_plots_Inr:
  assumes "fst (create_plots pb b g s) = Inr plots"
  shows "plots =
     map (\<lambda>(n, f). (n, projr (f (Some b) g))) get_plot_functions
     @ (if list_all successful_runs (run_groups b)
        then map (\<lambda>(n, f). (n, projr (f (Some b) b g))) get_test_execution_plot_functions
        else [])
     @ concat (map (\<lambda>(n, f).
          map (\<lambda>c. (plot_key n c, projr (f (Some b) g c))) (prepare_coverage_values g))
        get_per_coverage_plot_functions)"
proof -
  from create_plots_split [OF assms] obtain p1 p2 where
    p1: "plot_loop (\<lambda>plot_function. plot_function (Some b) g) get_plot_functions [] = Inr p1" and
    p2: "(if list_all successful_runs (run_groups b)
          then plot_loop (\<lambda>plot_function. plot_function (Some b) b g)
                 get_test_execution_plot_functions p1
          else Inr p1) = Inr p2" and
    p3: "per_coverage_loop (map (\<lambda>(n, f). (n, f (Some b) g)) get_per_coverage_plot_functions)
           (prepare_coverage_values g) p2 = Inr plots"
    by blast
  note p1_eq = general_Inr [OF p1]
  show ?thesis
  proof (cases "list_all successful_runs (run_groups b)")
    case True
    with p2 have "plot_loop (\<lambda>plot_function. plot_function (Some b) b g)
                 get_test_execution_plot_functions p1 = Inr p2" by (simp only: if_True)
    then have p2_eq: "p2 = map (\<lambda>(n, f). (n, projr (f (Some b) g))) get_plot_functions
           @ map (\<lambda>(n, f). (n, projr (f (Some b) b g))) get_test_execution_plot_functions"
      unfolding p1_eq by (rule tests_Inr)
    have "fst ` set p2 \<subseteq> set (map fst get_plot_functions)
                 \<union> set (map fst get_test_execution_plot_functions)"
      unfolding p2_eq by (rule keys_general_tests)
    from histograms_Inr [OF p3 prepare_coverage_values_distinct this] True p2_eq
    show ?thesis by (simp only: if_True append_assoc)
  next
    case False
    with p2 have "Inr p1 = (Inr p2 :: error + plots)" by (simp only: if_False)
    then have p2_eq: "p2 = map (\<lambda>(n, f). (n, projr (f (Some b) g))) get_plot_functions"
      using p1_eq by (simp only: sum.inject)
    have "fst ` set p2 \<subseteq> set (map fst get_plot_functions)
                 \<union> set (map fst get_test_execution_plot_functions)"
      unfolding p2_eq by (rule keys_general)
    from histograms_Inr [OF p3 prepare_coverage_values_distinct this] False p2_eq
    show ?thesis by (simp only: if_False append_Nil)
  qed
qed

lemma keys_of_histograms:
  "map fst (concat (map (\<lambda>(n, f). map (\<lambda>c. (plot_key n c, v n f c)) cvs) fns))
     = concat (map (\<lambda>n. map (plot_key n) cvs) (map fst fns))"
  by (induction fns) (auto simp: comp_def)

lemma create_plots_keys:
  assumes "fst (create_plots pb b g s) = Inr plots"
  shows "map fst plots =
     map fst get_plot_functions
     @ (if list_all successful_runs (run_groups b)
        then map fst get_test_execution_plot_functions else [])
     @ concat (map (\<lambda>n. map (plot_key n) (prepare_coverage_values g))
         (map fst get_per_coverage_plot_functions))"
proof -
  have "map fst (if list_all successful_runs (run_groups b)
        then map (\<lambda>(n, f). (n, projr (f (Some b) b g))) get_test_execution_plot_functions
        else []) = (if list_all successful_runs (run_groups b)
        then map fst get_test_execution_plot_functions else [])"
    by (simp only: map_fst_applied if_distrib [of "map fst"] list.map)
  then show ?thesis
    unfolding create_plots_Inr [OF assms]
    by (simp only: map_append map_fst_applied keys_of_histograms)
qed

lemma distinct_histogram_keys:
  "distinct names \<Longrightarrow>
   \<forall>n\<in>set names. \<forall>n'\<in>set names. \<forall>c c'. plot_key n c = plot_key n' c' \<longrightarrow> n = n' \<Longrightarrow>
   distinct cvs \<Longrightarrow>
   distinct (concat (map (\<lambda>n. map (plot_key n) cvs) names))"
proof (induction names)
  case Nil
  then show ?case by simp
next
  case (Cons n names)
  have inner: "distinct (map (plot_key n) cvs)"
    using Cons.prems(3) by (auto simp: distinct_map intro!: inj_onI dest: plot_key_inj)
  have rest: "distinct (concat (map (\<lambda>n. map (plot_key n) cvs) names))"
    using Cons.prems by (intro Cons.IH) auto
  have "plot_key n c \<noteq> plot_key n' c'" if "n' \<in> set names" for n' c c'
  proof
    assume "plot_key n c = plot_key n' c'"
    with Cons.prems(2) that have "n = n'" by (meson list.set_intros)
    with Cons.prems(1) that show False by simp
  qed
  then have "set (map (plot_key n) cvs) \<inter> set (concat (map (\<lambda>n. map (plot_key n) cvs) names)) = {}"
    by auto
  with inner rest show ?case by simp
qed

lemma create_plots_distinct:
  assumes "fst (create_plots pb b g s) = Inr plots"
  shows "distinct (map fst plots)"
proof -
  let ?h = "concat (map (\<lambda>n. map (plot_key n) (prepare_coverage_values g))
         (map fst get_per_coverage_plot_functions))"
  have h: "distinct ?h"
    by (rule distinct_histogram_keys [OF distinct_names(3) histogram_keys_disjoint
          prepare_coverage_values_distinct])
  have hk: "k \<notin> set (map fst get_plot_functions) \<and> k \<notin> set (map fst get_test_execution_plot_functions)"
    if "k \<in> set ?h" for k
  proof -
    from that obtain n c where "n \<in> set (map fst get_per_coverage_plot_functions)"
      and "k = plot_key n c" by auto
    with histogram_keys_fresh show ?thesis by blast
  qed
  have gt: "set (map fst get_plot_functions) \<inter> set (map fst get_test_execution_plot_functions) = {}"
    using test_names_fresh by blast
  have gh: "set (map fst get_plot_functions) \<inter> set ?h = {}" using hk by blast
  have th: "set (map fst get_test_execution_plot_functions) \<inter> set ?h = {}" using hk by blast
  show ?thesis
    unfolding create_plots_keys [OF assms]
    using distinct_names(1,2) h gt gh th
    by (simp only: distinct_append set_append Int_Un_distrib Un_empty if_distrib [of distinct]
        if_distrib [of set] distinct.simps list.set Int_empty_right split: if_splits) simp
qed

subsection \<open>When \<^verbatim>\<open>create_plots\<close> returns\<close>

lemma plot_loop_ok:
  "\<forall>(n, f)\<in>set fns. \<exists>c. run f = Inr c \<Longrightarrow> \<exists>plots'. plot_loop run fns plots = Inr plots'"
proof (induction fns arbitrary: plots)
  case Nil
  then show ?case by simp
next
  case (Cons p fns)
  obtain n f where p: "p = (n, f)" by (cases p)
  from Cons.prems p obtain c where c: "run f = Inr c" by auto
  from Cons.prems have "\<forall>(n, f)\<in>set fns. \<exists>c. run f = Inr c" by simp
  from Cons.IH [OF this] c p show ?case by simp
qed

lemma coverage_loop_ok:
  "\<forall>c\<in>set cvs. \<exists>fig. f c = Inr fig \<Longrightarrow> \<exists>plots'. coverage_loop f n cvs plots = Inr plots'"
proof (induction cvs arbitrary: plots)
  case Nil
  then show ?case by simp
next
  case (Cons c cvs)
  from Cons.prems obtain fig where fig: "f c = Inr fig" by auto
  from Cons.prems have "\<forall>c\<in>set cvs. \<exists>fig. f c = Inr fig" by simp
  from Cons.IH [OF this] fig show ?case by simp
qed

lemma per_coverage_loop_ok:
  "\<forall>(n, f)\<in>set fns. \<forall>c\<in>set cvs. \<exists>fig. f c = Inr fig \<Longrightarrow>
   \<exists>plots'. per_coverage_loop fns cvs plots = Inr plots'"
proof (induction fns arbitrary: plots)
  case Nil
  then show ?case by simp
next
  case (Cons p fns)
  obtain n f where p: "p = (n, f)" by (cases p)
  from Cons.prems p have "\<forall>c\<in>set cvs. \<exists>fig. f c = Inr fig" by simp
  from coverage_loop_ok [OF this] obtain mid where
    mid: "coverage_loop f n cvs plots = Inr mid" by blast
  from Cons.prems have "\<forall>(n, f)\<in>set fns. \<forall>c\<in>set cvs. \<exists>fig. f c = Inr fig" by simp
  from Cons.IH [OF this] mid p show ?case by simp
qed

lemma plot_bars_ok:
  assumes "g \<noteq> []"
    and "\<forall>(n, gens)\<in>set g. map_err vl gens = Inr (map h gens) \<and> (atl \<longrightarrow> gens \<noteq> [])"
  shows "\<exists>cmds. plot_bars g vl atl = Inr cmds"
proof -
  from assms(1) obtain k vs rest where g: "g = (k, vs) # rest" by (cases g) auto
  from bars_loop_heights [OF assms(2)] obtain cmds where
    "bars_loop (6 / of_nat (length g)) stop_coverage vl atl 0 g = Inr cmds" by blast
  then show ?thesis
    using g by (simp add: plot_bars_def py_truediv_def)
qed

lemma bars_chart_ok:
  "g \<noteq> [] \<Longrightarrow> \<forall>(n, gens)\<in>set g. gens \<noteq> [] \<Longrightarrow>
   \<exists>c. new_chart t x y (plot_bars g (\<lambda>gen. Inr (h gen)) atl) = Inr c"
proof -
  assume g: "g \<noteq> []" and ne: "\<forall>(n, gens)\<in>set g. gens \<noteq> []"
  from ne have "\<forall>(n, gens)\<in>set g.
      map_err (\<lambda>gen. Inr (h gen)) gens = Inr (map h gens) \<and> (atl \<longrightarrow> gens \<noteq> [])"
    by auto
  from plot_bars_ok [OF g this] obtain cmds where
    "plot_bars g (\<lambda>gen. Inr (h gen)) atl = Inr cmds" by auto
  then show ?thesis by simp
qed

lemma map_err_pair_Inr: "map_err (\<lambda>(a, b). Inr (h a b)) xs = Inr (map (\<lambda>(a, b). h a b) xs)"
  by (induction xs) auto

lemma lines_chart_ok:
  "g \<noteq> [] \<Longrightarrow> \<exists>c. new_chart t x y (plot_lines g (\<lambda>gen. Inr (h gen))) = Inr c"
proof -
  assume "g \<noteq> []"
  then obtain k vs rest where g: "g = (k, vs) # rest" by (cases g) auto
  have "\<exists>cmds. plot_lines g (\<lambda>gen. Inr (h gen)) = Inr cmds"
    unfolding g by (simp add: plot_lines_def map_err_pair_Inr)
  then show ?thesis by auto
qed

lemma group_run_groups_nonempty:
  "acc \<noteq> [] \<or> (\<exists>rg\<in>set rgs. algorithm rg \<in> set keys) \<Longrightarrow> group_run_groups keys rgs acc \<noteq> []"
proof (induction rgs arbitrary: acc)
  case Nil
  then show ?case by simp
next
  case (Cons rg rgs)
  show ?case
  proof (cases "algorithm rg \<in> set keys")
    case True
    have "(case map_of acc (algorithm rg) of
             None \<Rightarrow> acc @ [(algorithm rg, [rg])]
           | Some rgs \<Rightarrow> AList.update (algorithm rg) (rgs @ [rg]) acc) \<noteq> []"
      by (simp split: option.splits)
    from Cons.IH [OF disjI1 [OF this]] True show ?thesis by simp
  next
    case False
    with Cons.prems have "acc \<noteq> [] \<or> (\<exists>rg\<in>set rgs. algorithm rg \<in> set keys)" by auto
    from Cons.IH [OF this] False show ?thesis by simp
  qed
qed

lemma update_values:
  "(k', v') \<in> set (AList.update k v al) \<Longrightarrow> v' = v \<or> (k', v') \<in> set al"
  by (induction al) (auto split: if_splits)

lemma group_run_groups_series:
  "\<forall>(k, rgs)\<in>set acc. rgs \<noteq> [] \<Longrightarrow> \<forall>(k, rgs)\<in>set (group_run_groups keys rs acc). rgs \<noteq> []"
proof (induction rs arbitrary: acc)
  case Nil
  then show ?case by simp
next
  case (Cons rg rs)
  show ?case
  proof (cases "algorithm rg \<in> set keys")
    case True
    have "\<forall>(k, rgs)\<in>set (case map_of acc (algorithm rg) of
             None \<Rightarrow> acc @ [(algorithm rg, [rg])]
           | Some rgs \<Rightarrow> AList.update (algorithm rg) (rgs @ [rg]) acc). rgs \<noteq> []"
      using Cons.prems by (auto split: option.splits dest: update_values)
    from Cons.IH [OF this] True show ?thesis by simp
  next
    case False
    from Cons.IH [OF Cons.prems] False show ?thesis by simp
  qed
qed

lemma tests_chart_ok:
  assumes "g \<noteq> []" and "\<exists>rg\<in>set (run_groups_sorted b). algorithm rg \<in> set (map fst g)"
  shows "\<exists>c. new_chart t x y (plot_bars_tests b g (\<lambda>rg. Inr (h rg)) atl) = Inr c"
proof -
  let ?grouped = "group_run_groups (map fst g) (run_groups_sorted b) []"
  from group_run_groups_nonempty [OF disjI2 [OF assms(2)], of "[]"]
  obtain k vs rest where grouped: "?grouped = (k, vs) # rest" by (cases ?grouped) auto
  have "\<forall>(k, rgs)\<in>set ?grouped. rgs \<noteq> []"
    by (rule group_run_groups_series) simp
  then have "\<forall>(n, gens)\<in>set ?grouped.
      map_err (\<lambda>rg. Inr (h rg)) gens = Inr (map h gens) \<and> (atl \<longrightarrow> gens \<noteq> [])"
    by auto
  from bars_loop_heights [OF this] obtain cmds where
    "bars_loop (6 / of_nat (length g)) rg_stop_coverage (\<lambda>rg. Inr (h rg)) atl 0 ?grouped = Inr cmds"
    by blast
  then have "\<exists>cmds. plot_bars_tests b g (\<lambda>rg. Inr (h rg)) atl = Inr cmds"
    using assms(1) grouped by (simp add: plot_bars_tests_def py_truediv_def Let_def)
  then show ?thesis by auto
qed

lemma size_over_time_ok:
  assumes "g \<noteq> []" and "\<forall>(n, gens)\<in>set g. gens \<noteq> []"
    and "\<forall>(n, gens)\<in>set g. \<forall>x\<in>set gens. average_generation_time x \<noteq> 0"
  shows "\<exists>c. plot_average_size_divided_by_average_time g = Inr c"
proof -
  have "\<forall>(n, gens)\<in>set g.
          map_err size_over_time gens
            = Inr (map (\<lambda>x. average_test_suite_size x / average_generation_time x) gens)
          \<and> (True \<longrightarrow> gens \<noteq> [])"
    using assms(2,3) by (auto simp: map_err_size_over_time)
  from plot_bars_ok [OF assms(1) this] show ?thesis
    by (auto simp: plot_average_size_divided_by_average_time_def)
qed

lemma vertex_percentage_ok:
  assumes "g \<noteq> []" and "\<forall>(n, gens)\<in>set g. gens \<noteq> []" and "vertices (model (report b)) \<noteq> 0"
  shows "\<exists>c. plot_average_vertex_percentage_total_visits (Some b) g = Inr c"
  using assms
  by (simp add: plot_average_vertex_percentage_total_visits_def py_truediv_def Let_def
      bars_chart_ok)

lemma edge_percentage_ok:
  assumes "g \<noteq> []" and "\<forall>(n, gens)\<in>set g. gens \<noteq> []" and "edges (model (report b)) \<noteq> 0"
  shows "\<exists>c. plot_average_edge_percentage_total_visits (Some b) g = Inr c"
  using assms
  by (simp add: plot_average_edge_percentage_total_visits_def py_truediv_def Let_def
      bars_chart_ok)

lemma general_ok:
  assumes "g \<noteq> []" and "\<forall>(n, gens)\<in>set g. gens \<noteq> []"
    and "\<forall>(n, gens)\<in>set g. \<forall>x\<in>set gens. average_generation_time x \<noteq> 0"
    and "vertices (model (report b)) \<noteq> 0" and "edges (model (report b)) \<noteq> 0"
  shows "\<forall>(n, f)\<in>set get_plot_functions. \<exists>c. f (Some b) g = Inr c"
  using assms(1,2) size_over_time_ok [OF assms(1,2,3)] vertex_percentage_ok [OF assms(1,2,4)]
    edge_percentage_ok [OF assms(1,2,5)]
  by (simp add: get_plot_functions_def plot_total_time_def plot_total_size_def
      plot_average_time_def plot_average_size_def plot_minimum_time_def plot_maximum_time_def
      plot_minimum_size_def plot_maximum_size_def plot_max_minus_min_size_def
      plot_max_minus_min_time_def plot_coverage_vs_time_def plot_average_vs_minimum_time_def
      plot_average_vs_minimum_size_def bars_chart_ok lines_chart_ok)

lemma tests_ok:
  assumes "g \<noteq> []" and "\<exists>rg\<in>set (run_groups_sorted b). algorithm rg \<in> set (map fst g)"
  shows "\<forall>(n, f)\<in>set get_test_execution_plot_functions. \<exists>c. f (Some b) b g = Inr c"
  using tests_chart_ok [OF assms]
  by (simp add: get_test_execution_plot_functions_def plot_average_test_execution_time_def
      plot_minimum_test_execution_time_def plot_maximum_test_execution_time_def)

lemma map_err_ok: "\<forall>x\<in>set xs. \<exists>y. f x = Inr y \<Longrightarrow> \<exists>ys. map_err f xs = Inr ys"
proof (induction xs)
  case Nil
  then show ?case by simp
next
  case (Cons x xs)
  from Cons.prems obtain y where y: "f x = Inr y" by auto
  from Cons.prems have "\<forall>x\<in>set xs. \<exists>y. f x = Inr y" by simp
  from Cons.IH [OF this] y show ?case by auto
qed

lemma sort_key_empty: "sort_key k xs = [] \<longleftrightarrow> xs = []"
  by (metis length_0_conv length_sort)

lemma histogram_of_ok: "pl x \<noteq> [] \<Longrightarrow> \<exists>cmds. histogram_of pl c n x = Inr cmds"
  by (simp add: histogram_of_def Let_def sort_key_empty)

lemma plot_histogram_empty_visits:
  "plot_histogram_total_visited_vertices
     [(''Random'', [(example_generator 50 15)\<lparr>total_vertex_visits_individual := []\<rparr>])] 50
     = Inl (ValueError ([CHR 0x60] @ ''bins'' @ [CHR 0x60] @ '' must be positive, when an integer''))"
  by (simp add: plot_histogram_total_visited_vertices_def plot_histogram_def histogram_of_def
      example_generator_def)

lemma plot_histogram_ok:
  assumes "\<forall>(n, gens)\<in>set g. \<forall>x\<in>set gens. pl x \<noteq> []"
  shows "\<exists>cmds. plot_histogram g pl c = Inr cmds"
proof -
  have "\<forall>p\<in>set g. \<exists>y. (\<lambda>(generator_group, generators).
          err_bind (map_err (histogram_of pl c generator_group) generators)
            (\<lambda>drawn_bars. Inr (concat drawn_bars))) p = Inr y"
  proof
    fix p assume p: "p \<in> set g"
    obtain n gens where pg: "p = (n, gens)" by (cases p)
    from assms p pg have "\<forall>x\<in>set gens. pl x \<noteq> []" by auto
    then have "\<forall>x\<in>set gens. \<exists>y. histogram_of pl c n x = Inr y"
      by (simp add: histogram_of_ok)
    from map_err_ok [OF this] obtain ys where "map_err (histogram_of pl c n) gens = Inr ys"
      by blast
    then show "\<exists>y. (\<lambda>(generator_group, generators).
          err_bind (map_err (histogram_of pl c generator_group) generators)
            (\<lambda>drawn_bars. Inr (concat drawn_bars))) p = Inr y"
      using pg by simp
  qed
  from map_err_ok [OF this] show ?thesis
    by (auto simp: plot_histogram_def)
qed

lemma histograms_ok:
  assumes "\<forall>(n, gens)\<in>set g. \<forall>x\<in>set gens.
      total_vertex_visits_individual x \<noteq> [] \<and> total_edge_visits_individual x \<noteq> []
      \<and> average_vertex_visits_individual x \<noteq> [] \<and> average_edge_visits_individual x \<noteq> []"
  shows "\<forall>(n, f)\<in>set (map (\<lambda>(n, f). (n, f (Some b) g)) get_per_coverage_plot_functions).
     \<forall>c\<in>set cvs. \<exists>fig. f c = Inr fig"
proof -
  have tv: "\<exists>cmds. plot_histogram g total_vertex_visits_individual c = Inr cmds" for c
    using assms by (intro plot_histogram_ok) auto
  have te: "\<exists>cmds. plot_histogram g total_edge_visits_individual c = Inr cmds" for c
    using assms by (intro plot_histogram_ok) auto
  have av: "\<exists>cmds. plot_histogram g average_vertex_visits_individual c = Inr cmds" for c
    using assms by (intro plot_histogram_ok) auto
  have ae: "\<exists>cmds. plot_histogram g average_edge_visits_individual c = Inr cmds" for c
    using assms by (intro plot_histogram_ok) auto
  have ok: "\<exists>fig. new_chart t x y r = Inr fig" if "\<exists>cmds. r = Inr cmds" for t x y r
    using that by auto
  show ?thesis
    by (simp add: get_per_coverage_plot_functions_def plot_histogram_total_visited_vertices_def
        plot_histogram_total_visited_edges_def plot_histogram_average_visited_vertices_def
        plot_histogram_average_visited_edges_def ok tv te av ae)
qed

lemma create_plots_ok:
  assumes "g \<noteq> []" and "\<forall>(n, gens)\<in>set g. gens \<noteq> []"
    and "\<forall>(n, gens)\<in>set g. \<forall>x\<in>set gens. average_generation_time x \<noteq> 0"
    and "vertices (model (report b)) \<noteq> 0" and "edges (model (report b)) \<noteq> 0"
    and "list_all successful_runs (run_groups b) \<longrightarrow>
           (\<exists>rg\<in>set (run_groups_sorted b). algorithm rg \<in> set (map fst g))"
    and "\<forall>(n, gens)\<in>set g. \<forall>x\<in>set gens.
      total_vertex_visits_individual x \<noteq> [] \<and> total_edge_visits_individual x \<noteq> []
      \<and> average_vertex_visits_individual x \<noteq> [] \<and> average_edge_visits_individual x \<noteq> []"
  shows "\<exists>plots. fst (create_plots pb b g s) = Inr plots"
proof -
  from plot_loop_ok [OF general_ok [OF assms(1-5)], of "[]"] obtain p1 where
    p1: "plot_loop (\<lambda>plot_function. plot_function (Some b) g) get_plot_functions [] = Inr p1"
    by blast
  have "\<exists>p2. (if list_all successful_runs (run_groups b)
          then plot_loop (\<lambda>plot_function. plot_function (Some b) b g)
                 get_test_execution_plot_functions p1
          else Inr p1) = Inr p2"
  proof (cases "list_all successful_runs (run_groups b)")
    case True
    with assms(6) have "\<exists>rg\<in>set (run_groups_sorted b). algorithm rg \<in> set (map fst g)"
      by blast
    from plot_loop_ok [OF tests_ok [OF assms(1) this], of p1] True show ?thesis
      by (simp only: if_True)
  next
    case False
    then show ?thesis by simp
  qed
  then obtain p2 where
    p2: "(if list_all successful_runs (run_groups b)
          then plot_loop (\<lambda>plot_function. plot_function (Some b) b g)
                 get_test_execution_plot_functions p1
          else Inr p1) = Inr p2" by blast
  from per_coverage_loop_ok [OF histograms_ok [OF assms(7)], of b "prepare_coverage_values g" p2]
  obtain plots where
    "per_coverage_loop (map (\<lambda>(n, f). (n, f (Some b) g)) get_per_coverage_plot_functions)
       (prepare_coverage_values g) p2 = Inr plots" by blast
  with p1 p2 show ?thesis
    unfolding create_plots_def Let_def fst_conv by (simp only: err_bind_simps) blast
qed


subsection \<open>The example benchmark\<close>

lemma example_create_plots_ok:
  "\<exists>plots. fst (create_plots pb (example_benchmark 2 ok) example_grouped s) = Inr plots"
  by (rule create_plots_ok)
     (simp_all add: example_benchmark_def example_grouped_def example_generator_def
        example_run_group_def)

lemma example_coverage_values: "prepare_coverage_values example_grouped = [50, 100]"
  by (simp add: prepare_coverage_values_def example_grouped_def example_generator_def)

lemma example_str_int: "str_int 50 = ''50''" "str_int 100 = ''100''"
  by code_simp+



lemma coverage_loop_drawn:
  "coverage_loop f n cvs plots = Inr plots' \<Longrightarrow> c \<in> set cvs \<Longrightarrow> \<exists>fig. f c = Inr fig"
proof (induction cvs arbitrary: plots)
  case Nil
  then show ?case by simp
next
  case (Cons c' cvs)
  from Cons.prems(1) obtain fig where
    fig: "f c' = Inr fig" and
    rest: "coverage_loop f n cvs (AList.update (plot_key n c') fig plots) = Inr plots'"
    by (auto simp: err_bind_eq_Inr)
  show ?case
  proof (cases "c = c'")
    case True
    with fig show ?thesis by blast
  next
    case False
    with Cons.prems(2) have "c \<in> set cvs" by simp
    from Cons.IH [OF rest this] show ?thesis .
  qed
qed

lemma per_coverage_loop_drawn:
  "per_coverage_loop fns cvs plots = Inr plots' \<Longrightarrow> (n, f) \<in> set fns \<Longrightarrow> c \<in> set cvs \<Longrightarrow>
   \<exists>fig. f c = Inr fig"
proof (induction fns arbitrary: plots)
  case Nil
  then show ?case by simp
next
  case (Cons p fns)
  obtain n' f' where p: "p = (n', f')" by (cases p)
  from Cons.prems(1) p obtain mid where
    mid: "coverage_loop f' n' cvs plots = Inr mid" and
    rest: "per_coverage_loop fns cvs mid = Inr plots'"
    by (auto simp: err_bind_eq_Inr)
  show ?case
  proof (cases "(n, f) = p")
    case True
    with p have "f = f'" by simp
    with coverage_loop_drawn [OF mid Cons.prems(3)] show ?thesis by simp
  next
    case False
    with Cons.prems(2) have "(n, f) \<in> set fns" by auto
    from Cons.IH [OF rest this Cons.prems(3)] show ?thesis .
  qed
qed

lemma histogram_stored:
  assumes a: "fst (create_plots pb b g s) = Inr plots"
    and nf: "(n, f) \<in> set get_per_coverage_plot_functions"
    and c: "c \<in> set (prepare_coverage_values g)"
  shows "map_option Inr (map_of plots (plot_key n c)) = Some (f (Some b) g c)"
proof -
  from create_plots_split [OF a] obtain p2 where
    loop: "per_coverage_loop (map (\<lambda>(plot_function_name, plot_function).
                    (plot_function_name, plot_function (Some b) g))
               get_per_coverage_plot_functions) (prepare_coverage_values g) p2 = Inr plots"
    by blast
  from nf have "(n, f (Some b) g) \<in> set (map (\<lambda>(plot_function_name, plot_function).
                    (plot_function_name, plot_function (Some b) g))
               get_per_coverage_plot_functions)"
    by force
  from per_coverage_loop_drawn [OF loop this c]
  obtain fig where fig: "f (Some b) g c = Inr fig" by blast
  have "(plot_key n c, projr (f (Some b) g c))
          \<in> set (concat (map (\<lambda>(n, f).
                map (\<lambda>c. (plot_key n c, projr (f (Some b) g c))) (prepare_coverage_values g))
              get_per_coverage_plot_functions))"
    using nf c by (force simp: image_iff)
  then have "(plot_key n c, fig) \<in> set plots"
    unfolding create_plots_Inr [OF a] using fig by simp
  with create_plots_distinct [OF a] have "map_of plots (plot_key n c) = Some fig"
    by (rule map_of_is_SomeI)
  with fig show ?thesis by simp
qed

lemma example_coverage_set:
  "sorted_list_of_set (stop_coverage ` (\<Union>(n, gens)\<in>set example_grouped. set gens))
     = [50, 100]"
  using example_coverage_values by (simp only: prepare_coverage_values_eq)

lemma example_not_all_successful:
  "\<not> list_all successful_runs (run_groups (example_benchmark 2 False))"
  by (simp add: example_benchmark_def example_run_group_def)

lemma example_histogram_keys:
  "concat (map (\<lambda>n. map (\<lambda>c. n @ '' - '' @ str_int c @ ''%'') [50, 100])
         [''Histogram Total Visited Vertices'', ''Histogram Total Visited Edges'',
          ''Histogram Average Visited Vertices'', ''Histogram Average Visited Edges''])
   = [''Histogram Total Visited Vertices - 50%'', ''Histogram Total Visited Vertices - 100%'',
      ''Histogram Total Visited Edges - 50%'', ''Histogram Total Visited Edges - 100%'',
      ''Histogram Average Visited Vertices - 50%'', ''Histogram Average Visited Vertices - 100%'',
      ''Histogram Average Visited Edges - 50%'', ''Histogram Average Visited Edges - 100%'']"
  by (simp add: example_str_int)



subsection \<open>The chart families of the dictionary\<close>



text \<open>
  Claim C5. Whenever \<^verbatim>\<open>create_plots\<close> returns its dictionary, its keys are, in insertion
  order: the general chart names; the test-execution names when every run group
  succeeded; then, for each of the four histogram chart names, one key per distinct stop
  coverage of the grouped generators, in ascending order, the key being the chart name
  followed by \<^verbatim>\<open> - \<close>, the coverage value and \<^verbatim>\<open>%\<close>. No key occurs twice, and the
  figure stored at the key of a histogram chart and a coverage value is what that chart
  function draws for that coverage value.
\<close>

theorem per_coverage_histograms:
  "fst (create_plots pb b g s) = Inr plots \<Longrightarrow>
   map fst plots =
     map fst get_plot_functions
     @ (if list_all successful_runs (run_groups b)
        then map fst get_test_execution_plot_functions else [])
     @ concat (map (\<lambda>n. map (\<lambda>c. n @ '' - '' @ str_int c @ ''%'')
                 (sorted_list_of_set (stop_coverage ` (\<Union>(n, gens)\<in>set g. set gens))))
         [''Histogram Total Visited Vertices'', ''Histogram Total Visited Edges'',
          ''Histogram Average Visited Vertices'', ''Histogram Average Visited Edges''])
   \<and> distinct (map fst plots)
   \<and> (\<forall>(n, f)\<in>set get_per_coverage_plot_functions.
        \<forall>c\<in>stop_coverage ` (\<Union>(n, gens)\<in>set g. set gens).
          map_option Inr (map_of plots (n @ '' - '' @ str_int c @ ''%''))
            = Some (f (Some b) g c))"
proof -
  assume a: "fst (create_plots pb b g s) = Inr plots"
  have k: "(\<lambda>c. n @ '' - '' @ str_int c @ ''%'') = plot_key n" for n
    by (rule ext) (simp add: plot_key_def)
  have 1: "map fst plots =
     map fst get_plot_functions
     @ (if list_all successful_runs (run_groups b)
        then map fst get_test_execution_plot_functions else [])
     @ concat (map (\<lambda>n. map (\<lambda>c. n @ '' - '' @ str_int c @ ''%'')
                 (sorted_list_of_set (stop_coverage ` (\<Union>(n, gens)\<in>set g. set gens))))
         [''Histogram Total Visited Vertices'', ''Histogram Total Visited Edges'',
          ''Histogram Average Visited Vertices'', ''Histogram Average Visited Edges''])"
    unfolding k create_plots_keys [OF a] histogram_names prepare_coverage_values_eq ..
  have 2: "distinct (map fst plots)" by (rule create_plots_distinct [OF a])
  have fin: "finite (stop_coverage ` (\<Union>(n, gens)\<in>set g. set gens))" by auto
  have stored: "map_option Inr (map_of plots (n @ '' - '' @ str_int c @ ''%''))
            = Some (f (Some b) g c)"
    if nf: "(n, f) \<in> set get_per_coverage_plot_functions"
      and c: "c \<in> stop_coverage ` (\<Union>(n, gens)\<in>set g. set gens)" for n f c
  proof -
    from c fin have "c \<in> set (prepare_coverage_values g)"
      unfolding prepare_coverage_values_eq by simp
    from histogram_stored [OF a nf this] show ?thesis
      by (simp only: plot_key_def)
  qed
  have 3: "\<forall>(n, f)\<in>set get_per_coverage_plot_functions.
        \<forall>c\<in>stop_coverage ` (\<Union>(n, gens)\<in>set g. set gens).
          map_option Inr (map_of plots (n @ '' - '' @ str_int c @ ''%''))
            = Some (f (Some b) g c)"
    using stored by fast
  from 1 2 3 show ?thesis by (intro conjI)
qed

theorem per_coverage_histograms_witness:
  "\<exists>plots. fst (create_plots None (example_benchmark 2 False) example_grouped False) = Inr plots
     \<and> map fst plots =
         [''Total Time'', ''Total Size'', ''Average Time'', ''Average Size'', ''Minimum Time'',
          ''Maximum Time'', ''Minimum Size'', ''Maximum Size'', ''Max-Min Size'', ''Max-Min Time'',
          ''Coverage vs Time'', ''Size over Time'', ''Average Vertex Visits %'',
          ''Average Edge Visits %'', ''Average vs Minimum Time'', ''Average vs Minimum Size'',
          ''Histogram Total Visited Vertices - 50%'', ''Histogram Total Visited Vertices - 100%'',
          ''Histogram Total Visited Edges - 50%'', ''Histogram Total Visited Edges - 100%'',
          ''Histogram Average Visited Vertices - 50%'', ''Histogram Average Visited Vertices - 100%'',
          ''Histogram Average Visited Edges - 50%'', ''Histogram Average Visited Edges - 100%'']"
proof -
  from example_create_plots_ok [of None False False] obtain plots where
    p: "fst (create_plots None (example_benchmark 2 False) example_grouped False) = Inr plots"
    by blast
  let ?general = "[''Total Time'', ''Total Size'', ''Average Time'', ''Average Size'',
          ''Minimum Time'', ''Maximum Time'', ''Minimum Size'', ''Maximum Size'', ''Max-Min Size'',
          ''Max-Min Time'', ''Coverage vs Time'', ''Size over Time'', ''Average Vertex Visits %'',
          ''Average Edge Visits %'', ''Average vs Minimum Time'', ''Average vs Minimum Size'']"
  let ?histograms = "[''Histogram Total Visited Vertices - 50%'',
          ''Histogram Total Visited Vertices - 100%'',
          ''Histogram Total Visited Edges - 50%'', ''Histogram Total Visited Edges - 100%'',
          ''Histogram Average Visited Vertices - 50%'', ''Histogram Average Visited Vertices - 100%'',
          ''Histogram Average Visited Edges - 50%'', ''Histogram Average Visited Edges - 100%'']"
  have "map fst plots = ?general @ [] @ ?histograms"
    using per_coverage_histograms [OF p, THEN conjunct1]
    unfolding example_coverage_set example_histogram_keys general_names
    by (simp only: example_not_all_successful if_False)
  then have "map fst plots = ?general @ ?histograms"
    by (simp only: append_Nil)
  also have "?general @ ?histograms =
         [''Total Time'', ''Total Size'', ''Average Time'', ''Average Size'', ''Minimum Time'',
          ''Maximum Time'', ''Minimum Size'', ''Maximum Size'', ''Max-Min Size'', ''Max-Min Time'',
          ''Coverage vs Time'', ''Size over Time'', ''Average Vertex Visits %'',
          ''Average Edge Visits %'', ''Average vs Minimum Time'', ''Average vs Minimum Size'',
          ''Histogram Total Visited Vertices - 50%'', ''Histogram Total Visited Vertices - 100%'',
          ''Histogram Total Visited Edges - 50%'', ''Histogram Total Visited Edges - 100%'',
          ''Histogram Average Visited Vertices - 50%'', ''Histogram Average Visited Vertices - 100%'',
          ''Histogram Average Visited Edges - 50%'', ''Histogram Average Visited Edges - 100%'']"
    by (simp only: append.simps)
  finally have "map fst plots =
         [''Total Time'', ''Total Size'', ''Average Time'', ''Average Size'', ''Minimum Time'',
          ''Maximum Time'', ''Minimum Size'', ''Maximum Size'', ''Max-Min Size'', ''Max-Min Time'',
          ''Coverage vs Time'', ''Size over Time'', ''Average Vertex Visits %'',
          ''Average Edge Visits %'', ''Average vs Minimum Time'', ''Average vs Minimum Size'',
          ''Histogram Total Visited Vertices - 50%'', ''Histogram Total Visited Vertices - 100%'',
          ''Histogram Total Visited Edges - 50%'', ''Histogram Total Visited Edges - 100%'',
          ''Histogram Average Visited Vertices - 50%'', ''Histogram Average Visited Vertices - 100%'',
          ''Histogram Average Visited Edges - 50%'', ''Histogram Average Visited Edges - 100%'']" .
  with p show ?thesis by (intro exI conjI)
qed

end
